theory Spec2Isabelle
  imports Complex_Main
begin

section \<open>Data model\<close>

text \<open>
  The accessor of \<^verbatim>\<open>accessor.py\<close> is glue around pandas, pandera, PyYAML and
  ydata-profiling. The embedding keeps the accessor's own control flow and takes every
  call into one of those libraries as a parameter (a collaborator), so that each theorem
  holds for whatever the library computes.

  A column is a declared type name with its cells; a missing cell is \<open>None\<close>. The type
  \<open>'v\<close> of the cell values is left open.
\<close>

record 'v series =
  dtype :: string
  cells :: "'v option list"

text \<open>
  The values the accessor stores in \<^verbatim>\<open>DataFrame.attrs\<close>: a flag, the text of a
  schema, or the mapping that was applied (a Python dict, kept in insertion order).
\<close>

datatype attr = AttrBool bool | AttrStr string | AttrSpec "(string \<times> string) list"

record 'v frame =
  index :: "int list"
  columns :: "(string \<times> 'v series) list"
  attrs :: "string \<rightharpoonup> attr"

text \<open>
  Messages are kept structured: one constructor for each f-string of the source, with the
  interpolated values as arguments.
\<close>

datatype message =
    InvalidYaml string
  | SpecMustBeStrOrDict string
  | DeriveFailed string string string
  | UnsupportedEngine string "string list"
  | ColumnsNotInSource "string list" "string list"
  | LookupFailed nat "string list"
  | LookupMissing nat "string list"
  | StringSourceUnsupported string
  | SrcMustBeStrOrFrame string
  | ColumnsSkipped "string list" "string list"
  | ProfilingNotInstalled
  | NoItems

datatype exn =
    ValueError message
  | TypeError message
  | NotImplementedError message
  | AttributeError message
  | KeyError string
  | YAMLError
  | Raised string

datatype warning = UserWarning message | ImportWarning message

text \<open>
  Python objects have identity: a DataFrame is reached through a reference, and two
  references may name the same object. The world holds the objects by address, the next
  free address, and the warnings emitted so far (oldest first).
\<close>

record 'v world =
  objs :: "nat \<Rightarrow> 'v frame"
  nxt :: nat
  warnings :: "warning list"

definition alloc :: "'v frame \<Rightarrow> 'v world \<Rightarrow> nat \<times> 'v world" where
  "alloc t w = (nxt w, w\<lparr>objs := (objs w)(nxt w := t), nxt := Suc (nxt w)\<rparr>)"

text \<open>\<^verbatim>\<open>DataFrame.copy()\<close>: a new object with the same index, columns and attrs.\<close>

definition copy :: "nat \<Rightarrow> 'v world \<Rightarrow> nat \<times> 'v world" where
  "copy r w = alloc (objs w r) w"

text \<open>\<^verbatim>\<open>warnings.warn(...)\<close>.\<close>

definition warn :: "warning \<Rightarrow> 'v world \<Rightarrow> 'v world" where
  "warn x w = w\<lparr>warnings := warnings w @ [x]\<rparr>"

text \<open>\<^verbatim>\<open>df.attrs[k] = v\<close> on the object at \<open>r\<close>.\<close>

definition set_attr :: "nat \<Rightarrow> string \<Rightarrow> attr \<Rightarrow> 'v world \<Rightarrow> 'v world" where
  "set_attr r k v w = w\<lparr>objs := (objs w)(r := (objs w r)\<lparr>attrs := (attrs (objs w r))(k \<mapsto> v)\<rparr>)\<rparr>"

text \<open>\<^verbatim>\<open>list(df.columns)\<close> and \<^verbatim>\<open>col in df.columns\<close>.\<close>

definition column_names :: "'v frame \<Rightarrow> string list" where
  "column_names t = map fst (columns t)"

text \<open>\<^verbatim>\<open>df[col]\<close>: the column of that name, KeyError when there is none.\<close>

definition getitem :: "'v frame \<Rightarrow> string \<Rightarrow> exn + 'v series" where
  "getitem t c = (case map_of (columns t) c of None \<Rightarrow> Inl (KeyError c) | Some s \<Rightarrow> Inr s)"

text \<open>
  \<^verbatim>\<open>df[col] = s\<close>: an existing column is replaced where it stands, a new one is
  appended after the others.
\<close>

fun assign :: "string \<Rightarrow> 'v series \<Rightarrow> (string \<times> 'v series) list \<Rightarrow> (string \<times> 'v series) list" where
  "assign c s [] = [(c, s)]"
| "assign c s ((k, x) # ps) = (if k = c then (c, s) # ps else (k, x) # assign c s ps)"

definition setitem :: "nat \<Rightarrow> string \<Rightarrow> 'v series \<Rightarrow> 'v world \<Rightarrow> 'v world" where
  "setitem r c s w = w\<lparr>objs := (objs w)(r := (objs w r)\<lparr>columns := assign c s (columns (objs w r))\<rparr>)\<rparr>"

section \<open>validate\<close>

text \<open>
  The schema collaborator (pandera). \<open>schema_validate\<close> is
  \<^verbatim>\<open>schema.validate(obj, lazy=False)\<close>: it receives the caller's object and either
  raises or returns a DataFrame, which may or may not be a new object; \<open>schema_str\<close> is
  \<^verbatim>\<open>str(schema)\<close>. The argument of \<^verbatim>\<open>validate\<close> is a schema or a
  \<^verbatim>\<open>DataFrameModel\<close> class, which \<^verbatim>\<open>to_schema()\<close> turns into one.
\<close>

record 'v schema =
  schema_validate :: "nat \<Rightarrow> 'v world \<Rightarrow> (exn + nat) \<times> 'v world"
  schema_str :: string

datatype 'v schema_arg = SchemaInstance "'v schema" | SchemaModel "'v schema"

fun to_schema :: "'v schema_arg \<Rightarrow> 'v schema" where
  "to_schema (SchemaInstance s) = s"
| "to_schema (SchemaModel s) = s"

text \<open>
  A DataFrame always has \<^verbatim>\<open>attrs\<close>, so the \<^verbatim>\<open>hasattr\<close> guards of the source never
  fire and have no branch here.
\<close>

definition validate :: "'v schema_arg \<Rightarrow> nat \<Rightarrow> 'v world \<Rightarrow> (exn + nat) \<times> 'v world" where
  "validate sa self w =
     (let schema = to_schema sa in
      case schema_validate schema self w of
        (Inl e, w1) \<Rightarrow> (Inl e, w1)
      | (Inr validated_df, w1) \<Rightarrow>
          (Inr validated_df,
           set_attr validated_df ''enrich_schema'' (AttrStr (schema_str schema))
             (set_attr validated_df ''enrich_validated'' (AttrBool True) w1)))"

section \<open>derive\<close>

text \<open>
  The argument of \<^verbatim>\<open>derive\<close>: a string, a dict, or an object of another type (with
  the name of its type).
\<close>

datatype spec_arg = SpecStr string | SpecDict "(string \<times> string) list" | SpecOther string

text \<open>
  \<^verbatim>\<open>open(spec, 'r')\<close> followed by reading: an OSError (which
  \<^verbatim>\<open>FileNotFoundError\<close> and \<^verbatim>\<open>IOError\<close> are), the text of the file, or an exception
  of another class.
\<close>

datatype open_result = OpenOSError | Opened string | OpenRaises string

text \<open>
  \<^verbatim>\<open>yaml.safe_load\<close> gives a mapping or a value that is not a mapping (a scalar, a
  list, \<^verbatim>\<open>None\<close>); it is \<open>None\<close> here when it raises YAMLError.
\<close>

datatype yaml_value = YamlMapping "(string \<times> string) list" | YamlOther

fun resolve_spec ::
  "(string \<Rightarrow> open_result) \<Rightarrow> (string \<Rightarrow> yaml_value option) \<Rightarrow> spec_arg \<Rightarrow> exn + yaml_value" where
  "resolve_spec opn safe_load (SpecStr spec) =
     (case opn spec of
        Opened f \<Rightarrow>
          (case safe_load f of None \<Rightarrow> Inl YAMLError | Some spec_dict \<Rightarrow> Inr spec_dict)
      | OpenOSError \<Rightarrow>
          (case safe_load spec of
             None \<Rightarrow> Inl (ValueError (InvalidYaml spec))
           | Some spec_dict \<Rightarrow> Inr spec_dict)
      | OpenRaises m \<Rightarrow> Inl (Raised m))"
| "resolve_spec opn safe_load (SpecDict spec) = Inr (YamlMapping spec)"
| "resolve_spec opn safe_load (SpecOther ty) = Inl (TypeError (SpecMustBeStrOrDict ty))"

text \<open>
  The loop over \<^verbatim>\<open>spec_dict.items()\<close>; a value that is not a mapping has no
  \<^verbatim>\<open>items\<close>, and the call raises AttributeError outside every handler. \<open>ev\<close> is \<^verbatim>\<open>df.eval\<close>, the expression
  evaluator: from the frame as it is now and the expression it gives a column, or the
  text of the exception it raised.
\<close>

fun derive_loop ::
  "('v frame \<Rightarrow> string \<Rightarrow> string + 'v series) \<Rightarrow> nat \<Rightarrow> (string \<times> string) list \<Rightarrow>
     'v world \<Rightarrow> (exn + unit) \<times> 'v world" where
  "derive_loop ev df [] w = (Inr (), w)"
| "derive_loop ev df ((col_name, expression) # rest) w =
     (case ev (objs w df) expression of
        Inl e \<Rightarrow> (Inl (ValueError (DeriveFailed col_name expression e)), w)
      | Inr s \<Rightarrow> derive_loop ev df rest (setitem df col_name s w))"

definition derive ::
  "(string \<Rightarrow> open_result) \<Rightarrow> (string \<Rightarrow> yaml_value option) \<Rightarrow>
     ('v frame \<Rightarrow> string \<Rightarrow> string + 'v series) \<Rightarrow> spec_arg \<Rightarrow> nat \<Rightarrow> 'v world \<Rightarrow>
     (exn + nat) \<times> 'v world" where
  "derive opn safe_load ev spec self w =
     (case copy self w of (df, w1) \<Rightarrow>
        (case resolve_spec opn safe_load spec of
           Inl e \<Rightarrow> (Inl e, w1)
         | Inr (YamlMapping spec_dict) \<Rightarrow>
             (case derive_loop ev df spec_dict w1 of
                (Inl e, w2) \<Rightarrow> (Inl e, w2)
              | (Inr u, w2) \<Rightarrow>
                  (Inr df,
                   set_attr df ''enrich_derivations'' (AttrSpec spec_dict)
                     (set_attr df ''enrich_derived'' (AttrBool True) w2)))
         | Inr YamlOther \<Rightarrow> (Inl (AttributeError NoItems), w1)))"

section \<open>cast\<close>

text \<open>
  \<open>astype\<close> is \<^verbatim>\<open>Series.astype\<close>: the converted column, or the exception of the
  conversion, which the accessor does not catch.
\<close>

fun cast_loop ::
  "('v series \<Rightarrow> string \<Rightarrow> exn + 'v series) \<Rightarrow> nat \<Rightarrow> (string \<times> string) list \<Rightarrow>
     'v world \<Rightarrow> (exn + unit) \<times> 'v world" where
  "cast_loop astype df [] w = (Inr (), w)"
| "cast_loop astype df ((col, ty) # rest) w =
     (if col \<in> set (column_names (objs w df)) then
        (case getitem (objs w df) col of
           Inl e \<Rightarrow> (Inl e, w)
         | Inr s \<Rightarrow>
             (case astype s ty of
                Inl e \<Rightarrow> (Inl e, w)
              | Inr s' \<Rightarrow> cast_loop astype df rest (setitem df col s' w)))
      else cast_loop astype df rest w)"

definition cast ::
  "('v series \<Rightarrow> string \<Rightarrow> exn + 'v series) \<Rightarrow> (string \<times> string) list \<Rightarrow> nat \<Rightarrow> 'v world \<Rightarrow>
     (exn + nat) \<times> 'v world" where
  "cast astype dtype_spec self w =
     (case copy self w of (df, w1) \<Rightarrow>
        (let missing_cols = filter (\<lambda>col. col \<notin> set (column_names (objs w1 df))) (map fst dtype_spec);
             w2 = (if missing_cols \<noteq> []
                   then warn (UserWarning (ColumnsSkipped missing_cols (column_names (objs w1 df)))) w1
                   else w1)
         in case cast_loop astype df dtype_spec w2 of
              (Inl e, w3) \<Rightarrow> (Inl e, w3)
            | (Inr u, w3) \<Rightarrow>
                (Inr df,
                 set_attr df ''enrich_dtypes'' (AttrSpec dtype_spec)
                   (set_attr df ''enrich_cast'' (AttrBool True) w3))))"

section \<open>lookup\<close>

datatype src_arg = SrcFrame nat | SrcStr string | SrcOther string

datatype dst_arg = DstStr string | DstList "string list"

text \<open>\<^verbatim>\<open>df[names]\<close>: the named columns in the order asked, KeyError at the first absent one.\<close>

fun pick :: "(string \<times> 'v series) list \<Rightarrow> string list \<Rightarrow> exn + (string \<times> 'v series) list" where
  "pick cols [] = Inr []"
| "pick cols (c # cs) =
     (case map_of cols c of
        None \<Rightarrow> Inl (KeyError c)
      | Some s \<Rightarrow> (case pick cols cs of Inl e \<Rightarrow> Inl e | Inr r \<Rightarrow> Inr ((c, s) # r)))"

definition getitem_list :: "'v frame \<Rightarrow> string list \<Rightarrow> exn + 'v frame" where
  "getitem_list t cs = (case pick (columns t) cs of Inl e \<Rightarrow> Inl e | Inr r \<Rightarrow> Inr (t\<lparr>columns := r\<rparr>))"

text \<open>\<^verbatim>\<open>s.isnull().sum()\<close> for a column and \<^verbatim>\<open>t.isnull().sum().sum()\<close> for a frame.\<close>

definition isnull_sum :: "'v series \<Rightarrow> nat" where
  "isnull_sum s = length (filter (\<lambda>x. x = None) (cells s))"

definition isnull_sum_sum :: "'v frame \<Rightarrow> nat" where
  "isnull_sum_sum t = sum_list (map (\<lambda>p. isnull_sum (snd p)) (columns t))"

text \<open>
  \<open>merge\<close> is \<^verbatim>\<open>DataFrame.merge\<close> with the arguments of the source (a left join on the
  index, right-hand suffix \<^verbatim>\<open>_lookup\<close>): the joined frame, a new object, or the
  exception pandas raised. \<open>resolver\<close> is the caller's function, called with the copy, the
  source and the destination; what it returns is a reference of its own choosing.

  Once a string \<^verbatim>\<open>dst\<close> has been wrapped, \<^verbatim>\<open>dst\<close> is a list, so the
  \<^verbatim>\<open>else\<close> of the second \<^verbatim>\<open>isinstance(dst, list)\<close> is never taken.
\<close>

fun dst_list :: "dst_arg \<Rightarrow> string list" where
  "dst_list (DstStr d) = [d]"
| "dst_list (DstList ds) = ds"

definition lookup ::
  "('v frame \<Rightarrow> 'v frame \<Rightarrow> exn + 'v frame) \<Rightarrow> src_arg \<Rightarrow> dst_arg \<Rightarrow>
     (nat \<Rightarrow> src_arg \<Rightarrow> dst_arg \<Rightarrow> 'v world \<Rightarrow> (exn + nat) \<times> 'v world) option \<Rightarrow> string \<Rightarrow>
     nat \<Rightarrow> 'v world \<Rightarrow> (exn + nat) \<times> 'v world" where
  "lookup merge src dst resolver on_missing self w =
     (case copy self w of (df, w1) \<Rightarrow>
        (case resolver of
           Some rf \<Rightarrow> rf df src dst w1
         | None \<Rightarrow>
             (case src of
                SrcFrame sf \<Rightarrow>
                  (let dst' = dst_list dst;
                       missing_cols = filter (\<lambda>col. col \<notin> set (column_names (objs w1 sf))) dst'
                   in if missing_cols \<noteq> [] then
                        (Inl (ValueError (ColumnsNotInSource missing_cols (column_names (objs w1 sf)))), w1)
                      else
                        (case getitem_list (objs w1 sf) dst' of
                           Inl e \<Rightarrow> (Inl e, w1)
                         | Inr right \<Rightarrow>
                             (case merge (objs w1 df) right of
                                Inl e \<Rightarrow> (Inl e, w1)
                              | Inr joined \<Rightarrow>
                                  (case alloc joined w1 of (result, w2) \<Rightarrow>
                                     (case getitem_list (objs w2 result) dst' of
                                        Inl e \<Rightarrow> (Inl e, w2)
                                      | Inr sel \<Rightarrow>
                                          (let missing_count = isnull_sum_sum sel in
                                           if missing_count > 0 \<and> on_missing = ''raise'' then
                                             (Inl (ValueError (LookupFailed missing_count dst')), w2)
                                           else
                                             (Inr result,
                                              set_attr result ''enrich_lookup'' (AttrBool True)
                                                (if missing_count > 0 \<and> on_missing = ''warn''
                                                 then warn (UserWarning (LookupMissing missing_count dst')) w2
                                                 else w2))))))))
              | SrcStr name \<Rightarrow> (Inl (NotImplementedError (StringSourceUnsupported name)), w1)
              | SrcOther ty \<Rightarrow> (Inl (TypeError (SrcMustBeStrOrFrame ty)), w1))))"

section \<open>profile\<close>

text \<open>
  The profiling collaborator (ydata-profiling). It is \<open>None\<close> when the import fails;
  otherwise \<^verbatim>\<open>ProfileReport\<close> is called with the frame, a flag saying whether
  \<^verbatim>\<open>minimal=True, lazy=True\<close> are passed, and the caller's keyword arguments, and
  returns a report, raises ImportError itself, or raises something else.
\<close>

datatype 'r lib_outcome = LibReturns 'r | LibImportError | LibRaises exn

datatype 'd stat =
    Shape nat nat
  | Dtypes "(string \<times> string) list"
  | Missing "(string \<times> nat) list"
  | Describe 'd

datatype ('r, 'd) profile_result = Report 'r | BasicProfile "(string \<times> 'd stat) list"

text \<open>\<open>describe\<close> is \<^verbatim>\<open>DataFrame.describe().to_dict()\<close>.\<close>

definition basic_profile :: "('v frame \<Rightarrow> 'd) \<Rightarrow> nat \<Rightarrow> 'v world \<Rightarrow> (string \<times> 'd stat) list" where
  "basic_profile describe self w =
     [(''shape'', Shape (length (index (objs w self))) (length (columns (objs w self)))),
      (''dtypes'', Dtypes (map (\<lambda>p. (fst p, dtype (snd p))) (columns (objs w self)))),
      (''missing'', Missing (map (\<lambda>p. (fst p, isnull_sum (snd p))) (columns (objs w self)))),
      (''describe'', Describe (describe (objs w self)))]"

definition profile ::
  "('v frame \<Rightarrow> bool \<Rightarrow> 'k \<Rightarrow> 'r lib_outcome) option \<Rightarrow> ('v frame \<Rightarrow> 'd) \<Rightarrow>
     string \<Rightarrow> bool \<Rightarrow> 'k \<Rightarrow> nat \<Rightarrow> 'v world \<Rightarrow> (exn + ('r, 'd) profile_result) \<times> 'v world" where
  "profile lib describe engine lazy kwargs self w =
     (if engine = ''ydata'' then
        (case (case lib of
                 None \<Rightarrow> LibImportError
               | Some ProfileReport \<Rightarrow> ProfileReport (objs w self) lazy kwargs) of
           LibReturns r \<Rightarrow> (Inr (Report r), w)
         | LibImportError \<Rightarrow>
             (case warn (ImportWarning ProfilingNotInstalled) w of w1 \<Rightarrow>
                (Inr (BasicProfile (basic_profile describe self w1)), w1))
         | LibRaises e \<Rightarrow> (Inl e, w))
      else (Inl (ValueError (UnsupportedEngine engine [''ydata''])), w))"

section \<open>Example objects and collaborators\<close>

text \<open>
  Concrete frames and concrete stand-ins for the collaborators, on which the theorems
  below are exercised. The cells are exact rationals.
\<close>

definition num_series :: "rat list \<Rightarrow> rat series" where
  "num_series xs = \<lparr>dtype = ''int64'', cells = map Some xs\<rparr>"

definition frame_ab :: "rat frame" where
  "frame_ab = \<lparr>index = [0, 1, 2],
     columns = [(''a'', num_series [1, 2, 3]), (''b'', num_series [4, 5, 6])],
     attrs = Map.empty\<rparr>"

definition frame_sales :: "rat frame" where
  "frame_sales = \<lparr>index = [0, 1],
     columns = [(''price'', num_series [10, 20]), (''quantity'', num_series [3, 4])],
     attrs = Map.empty\<rparr>"

definition frame_prices :: "rat frame" where
  "frame_prices = \<lparr>index = [0, 1, 2], columns = [(''price'', num_series [10, 20, 30])],
     attrs = Map.empty\<rparr>"

definition frame_prices_elsewhere :: "rat frame" where
  "frame_prices_elsewhere = \<lparr>index = [5, 6, 7], columns = [(''price'', num_series [10, 20, 30])],
     attrs = Map.empty\<rparr>"

definition frame_none :: "rat frame" where
  "frame_none = \<lparr>index = [], columns = [], attrs = Map.empty\<rparr>"

text \<open>Four objects are alive: the frames above at the addresses 0 to 3.\<close>

definition example_world :: "rat world" where
  "example_world =
     \<lparr>objs = (\<lambda>r. if r = 0 then frame_ab else if r = 1 then frame_sales
                 else if r = 2 then frame_prices else if r = 3 then frame_prices_elsewhere
                 else frame_none),
      nxt = 4, warnings = []\<rparr>"

text \<open>Arithmetic on cells: a missing operand gives a missing result.\<close>

definition cell_op :: "('v \<Rightarrow> 'v \<Rightarrow> 'v) \<Rightarrow> 'v option \<Rightarrow> 'v option \<Rightarrow> 'v option" where
  "cell_op f x y = (case x of None \<Rightarrow> None | Some a \<Rightarrow> (case y of None \<Rightarrow> None | Some b \<Rightarrow> Some (f a b)))"

text \<open>
  An evaluator for the expressions of the examples. A name that is not a column makes it
  raise, with the name as the text of the exception.
\<close>

definition eval_columns :: "(rat \<Rightarrow> rat \<Rightarrow> rat) \<Rightarrow> rat frame \<Rightarrow> string \<Rightarrow> string \<Rightarrow> string + rat series" where
  "eval_columns f t a b =
     (case map_of (columns t) a of
        None \<Rightarrow> Inl a
      | Some sa \<Rightarrow>
          (case map_of (columns t) b of
             None \<Rightarrow> Inl b
           | Some sb \<Rightarrow> Inr \<lparr>dtype = dtype sa, cells = map2 (cell_op f) (cells sa) (cells sb)\<rparr>))"

definition eval_scaled :: "rat \<Rightarrow> rat frame \<Rightarrow> string \<Rightarrow> string + rat series" where
  "eval_scaled q t a =
     (case map_of (columns t) a of
        None \<Rightarrow> Inl a
      | Some sa \<Rightarrow> Inr \<lparr>dtype = ''float64'', cells = map (map_option (\<lambda>x. x * q)) (cells sa)\<rparr>)"

definition example_eval :: "rat frame \<Rightarrow> string \<Rightarrow> string + rat series" where
  "example_eval t e =
     (if e = ''a + b'' then eval_columns (+) t ''a'' ''b''
      else if e = ''price*quantity'' then eval_columns (*) t ''price'' ''quantity''
      else if e = ''total*0.1'' then eval_scaled (1 / 10) t ''total''
      else Inl e)"

text \<open>A converter that knows three type names and raises on any other.\<close>

definition example_astype :: "rat series \<Rightarrow> string \<Rightarrow> exn + rat series" where
  "example_astype s ty =
     (if ty = ''int64'' \<or> ty = ''int32'' \<or> ty = ''float32'' then Inr (s\<lparr>dtype := ty\<rparr>)
      else Inl (Raised ty))"

text \<open>
  A left join on the index for a right-hand frame whose labels are not repeated: every
  left row keeps its place; a right-hand column takes the cell of the row with the same
  label, or a missing cell; a right-hand name that the left frame has too gets the suffix.
\<close>

fun position :: "int list \<Rightarrow> int \<Rightarrow> nat option" where
  "position [] k = None"
| "position (x # xs) k = (if x = k then Some 0 else map_option Suc (position xs k))"

fun cell_at :: "'v option list \<Rightarrow> nat option \<Rightarrow> 'v option" where
  "cell_at xs None = None"
| "cell_at [] (Some j) = None"
| "cell_at (x # xs) (Some 0) = x"
| "cell_at (x # xs) (Some (Suc j)) = cell_at xs (Some j)"

definition example_merge :: "'v frame \<Rightarrow> 'v frame \<Rightarrow> exn + 'v frame" where
  "example_merge l r =
     Inr (l\<lparr>columns := columns l @
            map (\<lambda>p. (if fst p \<in> set (column_names l) then fst p @ ''_lookup'' else fst p,
                      (snd p)\<lparr>cells := map (\<lambda>k. cell_at (cells (snd p)) (position (index r) k)) (index l)\<rparr>))
              (columns r)\<rparr>)"

text \<open>
  A file system with one file and a YAML reader that understands two texts.
\<close>

definition example_open :: "string \<Rightarrow> open_result" where
  "example_open path = (if path = ''spec.yaml'' then Opened ''c: a + b'' else OpenOSError)"

definition example_safe_load :: "string \<Rightarrow> yaml_value option" where
  "example_safe_load txt =
     (if txt = ''c: a + b'' then Some (YamlMapping [(''c'', ''a + b'')])
      else if txt = ''{c: a * b'' then None
      else Some YamlOther)"

text \<open>
  A schema that asks for a column \<^verbatim>\<open>a\<close> and, as pandera does when it is not told to
  work in place, hands back a copy of the frame it has checked.
\<close>

definition example_schema :: "rat schema" where
  "example_schema =
     \<lparr>schema_validate =
        (\<lambda>r w. if ''a'' \<in> set (column_names (objs w r))
               then (case copy r w of (v, w1) \<Rightarrow> (Inr v, w1))
               else (Inl (Raised ''SchemaError''), w)),
      schema_str = ''<Schema DataFrameSchema>''\<rparr>"

text \<open>
  The chain \<^verbatim>\<open>df.enrich.validate(schema).enrich.derive({"c": "a + b"}).enrich.cast({"c": "int32"})\<close>
  on the frame at address 0: each call is made on the object the call before returned,
  in the world the call before left.
\<close>

definition chain_validated :: "(exn + nat) \<times> rat world" where
  "chain_validated = validate (SchemaInstance example_schema) 0 example_world"

definition chain_derived :: "(exn + nat) \<times> rat world" where
  "chain_derived =
     derive example_open example_safe_load example_eval (SpecDict [(''c'', ''a + b'')]) 4 (snd chain_validated)"

definition chain_cast :: "(exn + nat) \<times> rat world" where
  "chain_cast = cast example_astype [(''c'', ''int32'')] 5 (snd chain_derived)"

text \<open>A resolver that ignores the copy it is given and hands back the source.\<close>

definition resolver_returns_source ::
  "nat \<Rightarrow> src_arg \<Rightarrow> dst_arg \<Rightarrow> rat world \<Rightarrow> (exn + nat) \<times> rat world" where
  "resolver_returns_source df src dst w =
     (case src of SrcFrame sf \<Rightarrow> (Inr sf, w) | SrcStr n \<Rightarrow> (Inr df, w) | SrcOther ty \<Rightarrow> (Inr df, w))"

section \<open>Properties\<close>

subsection \<open>The store: allocation, assignment, and what the loops leave alone\<close>

lemma copy_eq:
  "copy r w = (nxt w, w\<lparr>objs := (objs w)(nxt w := objs w r), nxt := Suc (nxt w)\<rparr>)"
  by (simp add: copy_def alloc_def)

lemma map_of_assign: "map_of (assign c s ps) = (map_of ps)(c \<mapsto> s)"
  by (induction ps) (auto simp: fun_eq_iff)

lemma map_fst_assign:
  "map fst (assign c s ps) = (if c \<in> fst ` set ps then map fst ps else map fst ps @ [c])"
proof (induction ps)
  case Nil
  then show ?case by simp
next
  case (Cons p ps)
  obtain k x where p: "p = (k, x)" by (cases p)
  show ?case using Cons.IH p by (cases "k = c") (simp_all add: image_iff)
qed

lemma derive_loop_frame:
  "derive_loop ev df spec w = (res, w') \<Longrightarrow>
     nxt w' = nxt w \<and> warnings w' = warnings w \<and>
     (\<forall>r. r \<noteq> df \<longrightarrow> objs w' r = objs w r) \<and>
     attrs (objs w' df) = attrs (objs w df) \<and> index (objs w' df) = index (objs w df)"
proof (induction spec arbitrary: w)
  case Nil
  then show ?case by simp
next
  case (Cons p spec)
  obtain c e where p: "p = (c, e)" by (cases p)
  show ?case
  proof (cases "ev (objs w df) e")
    case (Inl m)
    with Cons.prems p show ?thesis by simp
  next
    case (Inr s)
    with Cons.prems p have "derive_loop ev df spec (setitem df c s w) = (res, w')" by simp
    from Cons.IH [OF this] show ?thesis by (simp add: setitem_def)
  qed
qed

lemma cast_loop_frame:
  "cast_loop astype df spec w = (res, w') \<Longrightarrow>
     nxt w' = nxt w \<and> warnings w' = warnings w \<and>
     (\<forall>r. r \<noteq> df \<longrightarrow> objs w' r = objs w r) \<and>
     attrs (objs w' df) = attrs (objs w df) \<and> index (objs w' df) = index (objs w df)"
proof (induction spec arbitrary: w)
  case Nil
  then show ?case by simp
next
  case (Cons p spec)
  obtain c ty where p: "p = (c, ty)" by (cases p)
  show ?case
  proof (cases "c \<in> set (column_names (objs w df))")
    case False
    with Cons.prems p have "cast_loop astype df spec w = (res, w')" by simp
    from Cons.IH [OF this] show ?thesis .
  next
    case True
    show ?thesis
    proof (cases "getitem (objs w df) c")
      case (Inl e)
      with True Cons.prems p show ?thesis by simp
    next
      case (Inr s)
      note gi = this
      show ?thesis
      proof (cases "astype s ty")
        case (Inl e)
        with gi True Cons.prems p show ?thesis by simp
      next
        case (Inr s')
        with gi True Cons.prems p
        have "cast_loop astype df spec (setitem df c s' w) = (res, w')" by simp
        from Cons.IH [OF this] show ?thesis by (simp add: setitem_def)
      qed
    qed
  qed
qed

subsection \<open>lookup: string sources, other sources, resolvers\<close>

text \<open>
  Claim C7. Without a resolver, a lookup whose source is a string identifier always raises
  NotImplementedError with a message naming the identifier, whatever the destination
  columns and the \<^verbatim>\<open>on_missing\<close> policy are; a source that is neither a string nor a
  DataFrame raises TypeError. In both cases the only effect is the copy made on entry.
\<close>

theorem lookup_string_source_not_implemented:
  "lookup merge (SrcStr name) dst None on_missing self w =
     (Inl (NotImplementedError (StringSourceUnsupported name)), snd (copy self w))
   \<and> lookup merge (SrcOther ty) dst None on_missing self w =
     (Inl (TypeError (SrcMustBeStrOrFrame ty)), snd (copy self w))"
  by (simp add: lookup_def copy_eq)

text \<open>
  Claim C8. With a resolver, lookup calls it with a fresh copy of the caller's frame (the
  new object at address \<open>nxt w\<close>, equal to the caller's), the source and the destination
  as given, and returns exactly what the resolver returns, in the world the resolver
  leaves: nothing is validated, joined, counted, warned about or stamped, and neither the
  join collaborator nor the policy has any influence.
\<close>

theorem lookup_resolver_delegates:
  "lookup merge src dst (Some rf) on_missing self w =
     rf (nxt w) src dst (w\<lparr>objs := (objs w)(nxt w := objs w self), nxt := Suc (nxt w)\<rparr>)"
  by (simp add: lookup_def copy_eq)

subsection \<open>Empty mappings\<close>

text \<open>
  Claim C10. derive with an empty dict and cast with an empty dict succeed, emit no
  warning, and return a new object whose index and columns are the caller's and whose
  attrs are the caller's plus the flag of the operation and the empty mapping: the flags
  are set whether or not a column changed.
\<close>

theorem empty_mapping_still_stamps:
  "derive opn safe_load ev (SpecDict []) self w =
     (Inr (nxt w),
      w\<lparr>objs := (objs w)(nxt w := (objs w self)\<lparr>attrs :=
           (attrs (objs w self))(''enrich_derived'' \<mapsto> AttrBool True, ''enrich_derivations'' \<mapsto> AttrSpec [])\<rparr>),
        nxt := Suc (nxt w)\<rparr>)
   \<and> cast astype [] self w =
     (Inr (nxt w),
      w\<lparr>objs := (objs w)(nxt w := (objs w self)\<lparr>attrs :=
           (attrs (objs w self))(''enrich_cast'' \<mapsto> AttrBool True, ''enrich_dtypes'' \<mapsto> AttrSpec [])\<rparr>),
        nxt := Suc (nxt w)\<rparr>)"
  by (simp add: derive_def cast_def copy_eq set_attr_def)

subsection \<open>profile: the engine selector and the fallback\<close>

text \<open>
  Claim C9. Every engine selector other than \<^verbatim>\<open>ydata\<close> makes profile raise
  ValueError with a message naming the selector and the supported set, whatever the
  laziness flag, the keyword arguments and the profiling library are, and nothing else
  happens. With \<^verbatim>\<open>ydata\<close> and the profiling library not importable, profile emits the
  ImportWarning and returns a mapping with exactly the keys shape, dtypes, missing and
  describe, in this order: the numbers of rows and columns, the declared type of every
  column, the number of missing cells of every column, and the descriptive statistics
  of the frame.
\<close>

theorem profile_engine_and_fallback:
  "(engine \<noteq> ''ydata'' \<longrightarrow>
      profile lib describe engine lazy kwargs self w =
        (Inl (ValueError (UnsupportedEngine engine [''ydata''])), w))
   \<and> profile None describe ''ydata'' lazy kwargs self w =
       (Inr (BasicProfile
          [(''shape'', Shape (length (index (objs w self))) (length (columns (objs w self)))),
           (''dtypes'', Dtypes (map (\<lambda>p. (fst p, dtype (snd p))) (columns (objs w self)))),
           (''missing'', Missing (map (\<lambda>p. (fst p, isnull_sum (snd p))) (columns (objs w self)))),
           (''describe'', Describe (describe (objs w self)))]),
        warn (ImportWarning ProfilingNotInstalled) w)"
  by (simp add: profile_def basic_profile_def warn_def)

text \<open>The frame at address 0 has three rows and the columns a and b, nothing missing.\<close>

theorem profile_engine_and_fallback_witness:
  "''bogus'' \<noteq> ''ydata'' \<and>
   profile (None :: (rat frame \<Rightarrow> bool \<Rightarrow> unit \<Rightarrow> unit lib_outcome) option) (\<lambda>t. ()) ''bogus'' False () 0 example_world =
     (Inl (ValueError (UnsupportedEngine ''bogus'' [''ydata''])), example_world)
   \<and> profile (None :: (rat frame \<Rightarrow> bool \<Rightarrow> unit \<Rightarrow> unit lib_outcome) option) (\<lambda>t. ()) ''ydata'' False () 0 example_world =
     (Inr (BasicProfile
        [(''shape'', Shape 3 2),
         (''dtypes'', Dtypes [(''a'', ''int64''), (''b'', ''int64'')]),
         (''missing'', Missing [(''a'', 0), (''b'', 0)]),
         (''describe'', Describe ())]),
      example_world\<lparr>warnings := [ImportWarning ProfilingNotInstalled]\<rparr>)"
  using profile_engine_and_fallback
    [of "''bogus''" "None :: (rat frame \<Rightarrow> bool \<Rightarrow> unit \<Rightarrow> unit lib_outcome) option" "\<lambda>t. ()" False "()" 0 example_world]
  by (simp add: example_world_def frame_ab_def num_series_def isnull_sum_def warn_def numeral_2_eq_2 numeral_3_eq_3)

subsection \<open>derive: how the argument is resolved\<close>

text \<open>
  Claim C4. A string argument is tried as a path first: when the file opens and its text
  parses to a mapping, derive behaves as on that mapping. When opening fails with an
  OSError (the file is absent or unreadable), the string itself is parsed: a mapping is
  used as it is, and a YAMLError becomes ValueError \<^verbatim>\<open>Invalid YAML specification\<close>. An
  argument that is neither a string nor a dict raises TypeError. In the failing cases the
  only effect is the copy made on entry.
\<close>

theorem derive_spec_resolution_order:
  "(opn spec = Opened f \<and> safe_load f = Some (YamlMapping d) \<longrightarrow>
      derive opn safe_load ev (SpecStr spec) self w = derive opn safe_load ev (SpecDict d) self w)
   \<and> (opn spec = OpenOSError \<and> safe_load spec = Some (YamlMapping d) \<longrightarrow>
      derive opn safe_load ev (SpecStr spec) self w = derive opn safe_load ev (SpecDict d) self w)
   \<and> (opn spec = OpenOSError \<and> safe_load spec = None \<longrightarrow>
      derive opn safe_load ev (SpecStr spec) self w =
        (Inl (ValueError (InvalidYaml spec)), snd (copy self w)))
   \<and> derive opn safe_load ev (SpecOther ty) self w =
        (Inl (TypeError (SpecMustBeStrOrDict ty)), snd (copy self w))"
  by (simp add: derive_def copy_eq)

text \<open>
  One path that opens, one text that is no path and parses, one text that is no path and
  does not parse, and an integer.
\<close>

theorem derive_spec_resolution_order_witness:
  "example_open ''spec.yaml'' = Opened ''c: a + b''
   \<and> example_safe_load ''c: a + b'' = Some (YamlMapping [(''c'', ''a + b'')])
   \<and> derive example_open example_safe_load example_eval (SpecStr ''spec.yaml'') 0 example_world =
       derive example_open example_safe_load example_eval (SpecDict [(''c'', ''a + b'')]) 0 example_world
   \<and> example_open ''c: a + b'' = OpenOSError
   \<and> derive example_open example_safe_load example_eval (SpecStr ''c: a + b'') 0 example_world =
       derive example_open example_safe_load example_eval (SpecDict [(''c'', ''a + b'')]) 0 example_world
   \<and> example_open ''{c: a * b'' = OpenOSError
   \<and> example_safe_load ''{c: a * b'' = None
   \<and> derive example_open example_safe_load example_eval (SpecStr ''{c: a * b'') 0 example_world =
       (Inl (ValueError (InvalidYaml ''{c: a * b'')), snd (copy 0 example_world))
   \<and> derive example_open example_safe_load example_eval (SpecOther ''int'') 0 example_world =
       (Inl (TypeError (SpecMustBeStrOrDict ''int'')), snd (copy 0 example_world))"
proof -
  have o1: "example_open ''spec.yaml'' = Opened ''c: a + b''"
    and o2: "example_open ''c: a + b'' = OpenOSError"
    and o3: "example_open ''{c: a * b'' = OpenOSError"
    by (simp_all add: example_open_def)
  have y1: "example_safe_load ''c: a + b'' = Some (YamlMapping [(''c'', ''a + b'')])"
    and y3: "example_safe_load ''{c: a * b'' = None"
    by (simp_all add: example_safe_load_def)
  note t = derive_spec_resolution_order [where opn = example_open and safe_load = example_safe_load
      and ev = example_eval and self = 0 and w = example_world and ty = "''int''"]
  from t [where spec = "''spec.yaml''" and f = "''c: a + b''" and d = "[(''c'', ''a + b'')]"] o1 y1
  have a: "derive example_open example_safe_load example_eval (SpecStr ''spec.yaml'') 0 example_world =
       derive example_open example_safe_load example_eval (SpecDict [(''c'', ''a + b'')]) 0 example_world"
    by blast
  from t [where spec = "''c: a + b''" and d = "[(''c'', ''a + b'')]"] o2 y1
  have b: "derive example_open example_safe_load example_eval (SpecStr ''c: a + b'') 0 example_world =
       derive example_open example_safe_load example_eval (SpecDict [(''c'', ''a + b'')]) 0 example_world"
    by blast
  from t [where spec = "''{c: a * b''"] o3 y3
  have c: "derive example_open example_safe_load example_eval (SpecStr ''{c: a * b'') 0 example_world =
       (Inl (ValueError (InvalidYaml ''{c: a * b'')), snd (copy 0 example_world))"
    and d: "derive example_open example_safe_load example_eval (SpecOther ''int'') 0 example_world =
       (Inl (TypeError (SpecMustBeStrOrDict ''int'')), snd (copy 0 example_world))"
    by blast+
  from o1 o2 o3 y1 y3 a b c d show ?thesis by blast
qed

subsection \<open>cast: missing columns are reported and skipped\<close>

lemma map_of_columns_None: "c \<notin> set (column_names t) \<Longrightarrow> map_of (columns t) c = None"
  by (simp add: column_names_def map_of_eq_None_iff)

lemma getitem_present:
  "c \<in> set (column_names t) \<Longrightarrow> \<exists>s. map_of (columns t) c = Some s \<and> getitem t c = Inr s"
proof -
  assume "c \<in> set (column_names t)"
  then have "map_of (columns t) c \<noteq> None"
    by (simp add: column_names_def map_of_eq_None_iff)
  then obtain s where "map_of (columns t) c = Some s" by blast
  then show ?thesis by (simp add: getitem_def)
qed

lemma columns_setitem: "columns (objs (setitem df c s w) df) = assign c s (columns (objs w df))"
  by (simp add: setitem_def)

lemma cast_loop_converts:
  assumes "distinct (map fst spec)"
    and "\<forall>(c, ty) \<in> set spec. \<forall>s. map_of (columns (objs w df)) c = Some s \<longrightarrow> (\<exists>s'. astype s ty = Inr s')"
  shows "\<exists>w'. cast_loop astype df spec w = (Inr (), w')
      \<and> (\<forall>(c, ty) \<in> set spec. \<forall>s. map_of (columns (objs w df)) c = Some s \<longrightarrow>
            (\<exists>s'. astype s ty = Inr s' \<and> map_of (columns (objs w' df)) c = Some s'))
      \<and> (\<forall>c. c \<notin> fst ` set spec \<longrightarrow> map_of (columns (objs w' df)) c = map_of (columns (objs w df)) c)
      \<and> column_names (objs w' df) = column_names (objs w df)"
  using assms
proof (induction spec arbitrary: w)
  case Nil
  then show ?case by simp
next
  case (Cons p spec)
  obtain c ty where p: "p = (c, ty)" by (cases p)
  from Cons.prems(1) p have dist: "distinct (map fst spec)" and fresh: "c \<notin> fst ` set spec"
    by auto
  show ?case
  proof (cases "c \<in> set (column_names (objs w df))")
    case False
    then have none: "map_of (columns (objs w df)) c = None" by (rule map_of_columns_None)
    from Cons.prems(2) have "\<forall>(c, ty) \<in> set spec. \<forall>s. map_of (columns (objs w df)) c = Some s \<longrightarrow> (\<exists>s'. astype s ty = Inr s')"
      by auto
    from Cons.IH [OF dist this] obtain w' where
      run: "cast_loop astype df spec w = (Inr (), w')"
      and conv: "\<forall>(c, ty) \<in> set spec. \<forall>s. map_of (columns (objs w df)) c = Some s \<longrightarrow>
            (\<exists>s'. astype s ty = Inr s' \<and> map_of (columns (objs w' df)) c = Some s')"
      and same: "\<forall>c. c \<notin> fst ` set spec \<longrightarrow> map_of (columns (objs w' df)) c = map_of (columns (objs w df)) c"
      and names: "column_names (objs w' df) = column_names (objs w df)"
      by blast
    from run False p have "cast_loop astype df (p # spec) w = (Inr (), w')" by simp
    moreover from conv none p
    have "\<forall>(c, ty) \<in> set (p # spec). \<forall>s. map_of (columns (objs w df)) c = Some s \<longrightarrow>
            (\<exists>s'. astype s ty = Inr s' \<and> map_of (columns (objs w' df)) c = Some s')"
      by simp
    moreover from same
    have "\<forall>c. c \<notin> fst ` set (p # spec) \<longrightarrow> map_of (columns (objs w' df)) c = map_of (columns (objs w df)) c"
      by simp
    ultimately show ?thesis using names by blast
  next
    case True
    from getitem_present [OF True] obtain s where
      ms: "map_of (columns (objs w df)) c = Some s" and gi: "getitem (objs w df) c = Inr s"
      by blast
    from Cons.prems(2) p ms obtain s' where conv_c: "astype s ty = Inr s'" by auto
    let ?w1 = "setitem df c s' w"
    have cols1: "map_of (columns (objs ?w1 df)) = (map_of (columns (objs w df)))(c \<mapsto> s')"
      by (simp add: columns_setitem map_of_assign)
    have other: "\<And>k. k \<noteq> c \<Longrightarrow> map_of (columns (objs ?w1 df)) k = map_of (columns (objs w df)) k"
      by (simp add: cols1)
    have pre: "\<forall>(k, ty) \<in> set spec. \<forall>s. map_of (columns (objs ?w1 df)) k = Some s \<longrightarrow> (\<exists>s'. astype s ty = Inr s')"
    proof (clarify)
      fix k ty2 s2
      assume mem: "(k, ty2) \<in> set spec" and m: "map_of (columns (objs ?w1 df)) k = Some s2"
      from mem fresh have "k \<noteq> c" by force
      with m other have "map_of (columns (objs w df)) k = Some s2" by simp
      with Cons.prems(2) mem show "\<exists>s'. astype s2 ty2 = Inr s'" by auto
    qed
    from Cons.IH [OF dist pre] obtain w' where
      run: "cast_loop astype df spec ?w1 = (Inr (), w')"
      and conv: "\<forall>(k, ty) \<in> set spec. \<forall>s. map_of (columns (objs ?w1 df)) k = Some s \<longrightarrow>
            (\<exists>s'. astype s ty = Inr s' \<and> map_of (columns (objs w' df)) k = Some s')"
      and same: "\<forall>k. k \<notin> fst ` set spec \<longrightarrow> map_of (columns (objs w' df)) k = map_of (columns (objs ?w1 df)) k"
      and names: "column_names (objs w' df) = column_names (objs ?w1 df)"
      by blast
    from run True gi conv_c p have r: "cast_loop astype df (p # spec) w = (Inr (), w')" by simp
    have c_done: "map_of (columns (objs w' df)) c = Some s'"
      using same fresh cols1 by simp
    have a: "\<forall>(k, ty) \<in> set (p # spec). \<forall>s. map_of (columns (objs w df)) k = Some s \<longrightarrow>
            (\<exists>s'. astype s ty = Inr s' \<and> map_of (columns (objs w' df)) k = Some s')"
    proof (clarify)
      fix k ty2 s2
      assume mem: "(k, ty2) \<in> set (p # spec)" and m: "map_of (columns (objs w df)) k = Some s2"
      show "\<exists>s'. astype s2 ty2 = Inr s' \<and> map_of (columns (objs w' df)) k = Some s'"
      proof (cases "(k, ty2) = p")
        case True
        with p ms m conv_c c_done show ?thesis by simp
      next
        case False
        with mem have mem': "(k, ty2) \<in> set spec" by simp
        with fresh have "k \<noteq> c" by force
        with m other have "map_of (columns (objs ?w1 df)) k = Some s2" by simp
        with conv mem' show ?thesis by auto
      qed
    qed
    have b: "\<forall>k. k \<notin> fst ` set (p # spec) \<longrightarrow> map_of (columns (objs w' df)) k = map_of (columns (objs w df)) k"
      using same other p by simp
    have "c \<in> fst ` set (columns (objs w df))" using True by (simp add: column_names_def)
    then have n: "column_names (objs w' df) = column_names (objs w df)"
      using names by (simp add: column_names_def columns_setitem map_fst_assign)
    from r a b n show ?thesis by blast
  qed
qed

text \<open>
  Claim C5. For a dict of requested types (its keys are distinct) whose conversions of
  the columns that exist all succeed, cast returns a new object and: emits exactly one
  warning, listing the requested names that are not columns and the columns there are,
  when there is such a name, and no warning otherwise; converts every requested column
  that exists to the requested type; leaves every column that was not requested as it
  was; adds no column, so the absent names are skipped; and attaches
  \<^verbatim>\<open>enrich_cast\<close> and, under \<^verbatim>\<open>enrich_dtypes\<close>, the whole requested mapping, skipped
  entries included.
\<close>

theorem cast_warns_once_and_converts_present:
  assumes "distinct (map fst dtype_spec)"
    and "\<forall>(c, ty) \<in> set dtype_spec. \<forall>s. map_of (columns (objs w self)) c = Some s \<longrightarrow> (\<exists>s'. astype s ty = Inr s')"
  shows "\<exists>w'. cast astype dtype_spec self w = (Inr (nxt w), w')
      \<and> warnings w' = warnings w @
            (if filter (\<lambda>col. col \<notin> set (column_names (objs w self))) (map fst dtype_spec) = [] then []
             else [UserWarning (ColumnsSkipped
                     (filter (\<lambda>col. col \<notin> set (column_names (objs w self))) (map fst dtype_spec))
                     (column_names (objs w self)))])
      \<and> (\<forall>(c, ty) \<in> set dtype_spec. \<forall>s. map_of (columns (objs w self)) c = Some s \<longrightarrow>
            (\<exists>s'. astype s ty = Inr s' \<and> map_of (columns (objs w' (nxt w))) c = Some s'))
      \<and> (\<forall>c. c \<notin> fst ` set dtype_spec \<longrightarrow>
            map_of (columns (objs w' (nxt w))) c = map_of (columns (objs w self)) c)
      \<and> column_names (objs w' (nxt w)) = column_names (objs w self)
      \<and> attrs (objs w' (nxt w)) =
            (attrs (objs w self))(''enrich_cast'' \<mapsto> AttrBool True, ''enrich_dtypes'' \<mapsto> AttrSpec dtype_spec)"
proof -
  let ?w1 = "w\<lparr>objs := (objs w)(nxt w := objs w self), nxt := Suc (nxt w)\<rparr>"
  let ?missing = "filter (\<lambda>col. col \<notin> set (column_names (objs w self))) (map fst dtype_spec)"
  let ?w2 = "if ?missing \<noteq> [] then warn (UserWarning (ColumnsSkipped ?missing (column_names (objs w self)))) ?w1 else ?w1"
  have o2: "objs ?w2 (nxt w) = objs w self" by (simp add: warn_def)
  from assms(2) have pre: "\<forall>(c, ty) \<in> set dtype_spec. \<forall>s. map_of (columns (objs ?w2 (nxt w))) c = Some s \<longrightarrow> (\<exists>s'. astype s ty = Inr s')"
    unfolding o2 .
  from cast_loop_converts [OF assms(1) pre] obtain w3 where
    run: "cast_loop astype (nxt w) dtype_spec ?w2 = (Inr (), w3)"
    and conv: "\<forall>(c, ty) \<in> set dtype_spec. \<forall>s. map_of (columns (objs ?w2 (nxt w))) c = Some s \<longrightarrow>
            (\<exists>s'. astype s ty = Inr s' \<and> map_of (columns (objs w3 (nxt w))) c = Some s')"
    and same: "\<forall>c. c \<notin> fst ` set dtype_spec \<longrightarrow> map_of (columns (objs w3 (nxt w))) c = map_of (columns (objs ?w2 (nxt w))) c"
    and names: "column_names (objs w3 (nxt w)) = column_names (objs ?w2 (nxt w))"
    by blast
  from cast_loop_frame [OF run] have fr: "warnings w3 = warnings ?w2"
    "attrs (objs w3 (nxt w)) = attrs (objs ?w2 (nxt w))" by simp_all
  let ?w' = "set_attr (nxt w) ''enrich_dtypes'' (AttrSpec dtype_spec)
               (set_attr (nxt w) ''enrich_cast'' (AttrBool True) w3)"
  have res: "cast astype dtype_spec self w = (Inr (nxt w), ?w')"
    using run by (cases "?missing = []") (simp_all add: cast_def copy_eq Let_def)
  have cols: "columns (objs ?w' (nxt w)) = columns (objs w3 (nxt w))"
    by (simp add: set_attr_def)
  have at: "attrs (objs ?w' (nxt w)) =
      (attrs (objs w self))(''enrich_cast'' \<mapsto> AttrBool True, ''enrich_dtypes'' \<mapsto> AttrSpec dtype_spec)"
    using fr(2) o2 by (simp add: set_attr_def)
  have wn: "warnings ?w' = warnings w @
            (if ?missing = [] then []
             else [UserWarning (ColumnsSkipped ?missing (column_names (objs w self)))])"
    using fr(1) by (simp add: set_attr_def warn_def)
  have cn: "column_names (objs ?w' (nxt w)) = column_names (objs w self)"
    using names o2 cols by (simp add: column_names_def)
  from conv have conv': "\<forall>(c, ty) \<in> set dtype_spec. \<forall>s. map_of (columns (objs w self)) c = Some s \<longrightarrow>
            (\<exists>s'. astype s ty = Inr s' \<and> map_of (columns (objs ?w' (nxt w))) c = Some s')"
    unfolding o2 cols .
  from same have same': "\<forall>c. c \<notin> fst ` set dtype_spec \<longrightarrow>
            map_of (columns (objs ?w' (nxt w))) c = map_of (columns (objs w self)) c"
    unfolding o2 cols .
  from res wn conv' same' cn at show ?thesis by blast
qed

text \<open>The example of the specification: a is a column, missing is not.\<close>

theorem cast_warns_once_and_converts_present_witness:
  "\<exists>w'. cast example_astype [(''a'', ''int64''), (''missing'', ''float32'')] 0 example_world = (Inr 4, w')
      \<and> warnings w' = [UserWarning (ColumnsSkipped [''missing''] [''a'', ''b''])]
      \<and> map_of (columns (objs w' 4)) ''a'' = Some ((num_series [1, 2, 3])\<lparr>dtype := ''int64''\<rparr>)
      \<and> map_of (columns (objs w' 4)) ''b'' = Some (num_series [4, 5, 6])
      \<and> column_names (objs w' 4) = [''a'', ''b'']
      \<and> attrs (objs w' 4) ''enrich_cast'' = Some (AttrBool True)
      \<and> attrs (objs w' 4) ''enrich_dtypes'' = Some (AttrSpec [(''a'', ''int64''), (''missing'', ''float32'')])"
proof -
  have d: "distinct (map fst [(''a'', ''int64''), (''missing'', ''float32'')])" by simp
  have c: "\<forall>(c, ty) \<in> set [(''a'', ''int64''), (''missing'', ''float32'')].
             \<forall>s. map_of (columns (objs example_world 0)) c = Some s \<longrightarrow> (\<exists>s'. example_astype s ty = Inr s')"
    by (simp add: example_astype_def)
  from cast_warns_once_and_converts_present [OF d c] obtain w' where
    "cast example_astype [(''a'', ''int64''), (''missing'', ''float32'')] 0 example_world = (Inr (nxt example_world), w')"
    "warnings w' = warnings example_world @
            (if filter (\<lambda>col. col \<notin> set (column_names (objs example_world 0))) (map fst [(''a'', ''int64''), (''missing'', ''float32'')]) = [] then []
             else [UserWarning (ColumnsSkipped
                     (filter (\<lambda>col. col \<notin> set (column_names (objs example_world 0))) (map fst [(''a'', ''int64''), (''missing'', ''float32'')]))
                     (column_names (objs example_world 0)))])"
    "\<forall>(c, ty) \<in> set [(''a'', ''int64''), (''missing'', ''float32'')]. \<forall>s. map_of (columns (objs example_world 0)) c = Some s \<longrightarrow>
            (\<exists>s'. example_astype s ty = Inr s' \<and> map_of (columns (objs w' (nxt example_world))) c = Some s')"
    "\<forall>c. c \<notin> fst ` set [(''a'', ''int64''), (''missing'', ''float32'')] \<longrightarrow>
            map_of (columns (objs w' (nxt example_world))) c = map_of (columns (objs example_world 0)) c"
    "column_names (objs w' (nxt example_world)) = column_names (objs example_world 0)"
    "attrs (objs w' (nxt example_world)) =
            (attrs (objs example_world 0))(''enrich_cast'' \<mapsto> AttrBool True, ''enrich_dtypes'' \<mapsto> AttrSpec [(''a'', ''int64''), (''missing'', ''float32'')])"
    by blast
  then show ?thesis
    by (simp add: example_world_def frame_ab_def column_names_def example_astype_def)
qed

subsection \<open>lookup: the policy for missing values\<close>

lemma lookup_join_unfold:
  assumes "sf < nxt w"
    and "set (dst_list dst) \<subseteq> set (column_names (objs w sf))"
    and "getitem_list (objs w sf) (dst_list dst) = Inr right"
    and "merge (objs w self) right = Inr joined"
    and "getitem_list joined (dst_list dst) = Inr sel"
  shows "lookup merge (SrcFrame sf) dst None on_missing self w =
     (if 0 < isnull_sum_sum sel \<and> on_missing = ''raise'' then
        (Inl (ValueError (LookupFailed (isnull_sum_sum sel) (dst_list dst))),
         w\<lparr>objs := (objs w)(nxt w := objs w self, Suc (nxt w) := joined), nxt := Suc (Suc (nxt w))\<rparr>)
      else
        (Inr (Suc (nxt w)),
         set_attr (Suc (nxt w)) ''enrich_lookup'' (AttrBool True)
           (if 0 < isnull_sum_sum sel \<and> on_missing = ''warn''
            then warn (UserWarning (LookupMissing (isnull_sum_sum sel) (dst_list dst)))
                   (w\<lparr>objs := (objs w)(nxt w := objs w self, Suc (nxt w) := joined), nxt := Suc (Suc (nxt w))\<rparr>)
            else w\<lparr>objs := (objs w)(nxt w := objs w self, Suc (nxt w) := joined), nxt := Suc (Suc (nxt w))\<rparr>)))"
proof -
  from assms(1) have ne: "sf \<noteq> nxt w" by simp
  from assms(2) have none: "filter (\<lambda>col. col \<notin> set (column_names (objs w sf))) (dst_list dst) = []"
    by (auto simp: filter_empty_conv)
  show ?thesis
    using ne none assms(3-5)
    by (simp add: lookup_def copy_eq alloc_def Let_def)
qed

text \<open>
  Claim C6. Take a lookup without resolver whose source is a live DataFrame having every
  destination column, and let \<open>n\<close> be the number of missing cells in the destination
  columns of the joined frame. Under \<^verbatim>\<open>raise\<close> with \<open>n\<close> positive the call raises
  ValueError with \<open>n\<close> in its message and warns of nothing. Under \<^verbatim>\<open>warn\<close> with \<open>n\<close>
  positive it emits one warning with \<open>n\<close> in its message and returns the joined frame
  with \<^verbatim>\<open>enrich_lookup\<close> set. Under \<^verbatim>\<open>ignore\<close> with \<open>n\<close> positive it returns the same
  without a warning. When \<open>n\<close> is zero it returns the joined frame with the flag and
  without error or warning under every policy. The missing-values error is raised only
  under \<^verbatim>\<open>raise\<close>, and only when \<open>n\<close> is positive.
\<close>

theorem lookup_missing_policy:
  assumes "sf < nxt w"
    and "set (dst_list dst) \<subseteq> set (column_names (objs w sf))"
    and "getitem_list (objs w sf) (dst_list dst) = Inr right"
    and "merge (objs w self) right = Inr joined"
    and "getitem_list joined (dst_list dst) = Inr sel"
    and "n = isnull_sum_sum sel"
    and "res = lookup merge (SrcFrame sf) dst None on_missing self w"
  shows "(0 < n \<and> on_missing = ''raise'' \<longrightarrow>
            fst res = Inl (ValueError (LookupFailed n (dst_list dst))) \<and> warnings (snd res) = warnings w)
     \<and> (0 < n \<and> on_missing = ''warn'' \<longrightarrow>
            fst res = Inr (Suc (nxt w)) \<and>
            warnings (snd res) = warnings w @ [UserWarning (LookupMissing n (dst_list dst))] \<and>
            objs (snd res) (Suc (nxt w)) = joined\<lparr>attrs := (attrs joined)(''enrich_lookup'' \<mapsto> AttrBool True)\<rparr>)
     \<and> (0 < n \<and> on_missing = ''ignore'' \<longrightarrow>
            fst res = Inr (Suc (nxt w)) \<and> warnings (snd res) = warnings w \<and>
            objs (snd res) (Suc (nxt w)) = joined\<lparr>attrs := (attrs joined)(''enrich_lookup'' \<mapsto> AttrBool True)\<rparr>)
     \<and> (n = 0 \<longrightarrow>
            fst res = Inr (Suc (nxt w)) \<and> warnings (snd res) = warnings w \<and>
            objs (snd res) (Suc (nxt w)) = joined\<lparr>attrs := (attrs joined)(''enrich_lookup'' \<mapsto> AttrBool True)\<rparr>)
     \<and> ((\<exists>m ds. fst res = Inl (ValueError (LookupFailed m ds))) \<longrightarrow> on_missing = ''raise'' \<and> 0 < n)"
  unfolding assms(7) assms(6)
    lookup_join_unfold [where merge = merge and self = self, OF assms(1-5)]
  by (simp add: set_attr_def warn_def)

text \<open>
  The frame at address 0 looks up \<^verbatim>\<open>price\<close> in the frame at address 3, none of whose
  labels it shares (three missing cells), and in the frame at address 2, whose labels
  are its own (none missing).
\<close>

theorem lookup_missing_policy_witness:
  "fst (lookup example_merge (SrcFrame 3) (DstStr ''price'') None ''raise'' 0 example_world) =
     Inl (ValueError (LookupFailed 3 [''price'']))
   \<and> fst (lookup example_merge (SrcFrame 3) (DstStr ''price'') None ''warn'' 0 example_world) = Inr 5
   \<and> warnings (snd (lookup example_merge (SrcFrame 3) (DstStr ''price'') None ''warn'' 0 example_world)) =
     [UserWarning (LookupMissing 3 [''price''])]
   \<and> fst (lookup example_merge (SrcFrame 3) (DstStr ''price'') None ''ignore'' 0 example_world) = Inr 5
   \<and> warnings (snd (lookup example_merge (SrcFrame 3) (DstStr ''price'') None ''ignore'' 0 example_world)) = []
   \<and> fst (lookup example_merge (SrcFrame 2) (DstStr ''price'') None ''raise'' 0 example_world) = Inr 5
   \<and> warnings (snd (lookup example_merge (SrcFrame 2) (DstStr ''price'') None ''raise'' 0 example_world)) = []
   \<and> attrs (objs (snd (lookup example_merge (SrcFrame 2) (DstStr ''price'') None ''raise'' 0 example_world)) 5)
        ''enrich_lookup'' = Some (AttrBool True)"
proof -
  let ?unmatched = "\<lparr>index = [0, 1, 2],
     columns = [(''a'', num_series [1, 2, 3]), (''b'', num_series [4, 5, 6]),
                (''price'', \<lparr>dtype = ''int64'', cells = [None, None, None]\<rparr>)],
     attrs = Map.empty\<rparr> :: rat frame"
  let ?matched = "\<lparr>index = [0, 1, 2],
     columns = [(''a'', num_series [1, 2, 3]), (''b'', num_series [4, 5, 6]),
                (''price'', num_series [10, 20, 30])],
     attrs = Map.empty\<rparr> :: rat frame"
  have alive: "3 < nxt example_world" "2 < nxt example_world"
    by (simp_all add: example_world_def)
  have cols: "set (dst_list (DstStr ''price'')) \<subseteq> set (column_names (objs example_world 3))"
    "set (dst_list (DstStr ''price'')) \<subseteq> set (column_names (objs example_world 2))"
    by (simp_all add: example_world_def frame_prices_def frame_prices_elsewhere_def column_names_def)
  have right: "getitem_list (objs example_world 3) (dst_list (DstStr ''price'')) = Inr frame_prices_elsewhere"
    "getitem_list (objs example_world 2) (dst_list (DstStr ''price'')) = Inr frame_prices"
    by (simp_all add: example_world_def frame_prices_def frame_prices_elsewhere_def getitem_list_def)
  have joined: "example_merge (objs example_world 0) frame_prices_elsewhere = Inr ?unmatched"
    "example_merge (objs example_world 0) frame_prices = Inr ?matched"
    by (simp_all add: example_world_def example_merge_def frame_ab_def frame_prices_def
        frame_prices_elsewhere_def column_names_def num_series_def)
  have sel: "getitem_list ?unmatched (dst_list (DstStr ''price'')) =
      Inr (?unmatched\<lparr>columns := [(''price'', \<lparr>dtype = ''int64'', cells = [None, None, None]\<rparr>)]\<rparr>)"
    "getitem_list ?matched (dst_list (DstStr ''price'')) =
      Inr (?matched\<lparr>columns := [(''price'', num_series [10, 20, 30])]\<rparr>)"
    by (simp_all add: getitem_list_def)
  have count: "3 = isnull_sum_sum (?unmatched\<lparr>columns := [(''price'', \<lparr>dtype = ''int64'', cells = [None, None, None]\<rparr>)]\<rparr>)"
    "0 = isnull_sum_sum (?matched\<lparr>columns := [(''price'', num_series [10, 20, 30])]\<rparr>)"
    by (simp_all add: isnull_sum_sum_def isnull_sum_def num_series_def)
  note unmatched = lookup_missing_policy [where merge = example_merge and self = 0,
      OF alive(1) cols(1) right(1) joined(1) sel(1) count(1) refl]
  note matched = lookup_missing_policy [where merge = example_merge and self = 0,
      OF alive(2) cols(2) right(2) joined(2) sel(2) count(2) refl]
  have nw: "warnings example_world = []" "nxt example_world = 4"
    by (simp_all add: example_world_def)
  from unmatched [of "''raise''", THEN conjunct1]
  have a: "fst (lookup example_merge (SrcFrame 3) (DstStr ''price'') None ''raise'' 0 example_world) =
     Inl (ValueError (LookupFailed 3 [''price'']))"
    by simp
  from unmatched [of "''warn''", THEN conjunct2, THEN conjunct1] nw
  have b: "fst (lookup example_merge (SrcFrame 3) (DstStr ''price'') None ''warn'' 0 example_world) = Inr 5"
    "warnings (snd (lookup example_merge (SrcFrame 3) (DstStr ''price'') None ''warn'' 0 example_world)) =
     [UserWarning (LookupMissing 3 [''price''])]"
    by simp_all
  from unmatched [of "''ignore''", THEN conjunct2, THEN conjunct2, THEN conjunct1] nw
  have c: "fst (lookup example_merge (SrcFrame 3) (DstStr ''price'') None ''ignore'' 0 example_world) = Inr 5"
    "warnings (snd (lookup example_merge (SrcFrame 3) (DstStr ''price'') None ''ignore'' 0 example_world)) = []"
    by simp_all
  from matched [of "''raise''", THEN conjunct2, THEN conjunct2, THEN conjunct2, THEN conjunct1] nw
  have d: "fst (lookup example_merge (SrcFrame 2) (DstStr ''price'') None ''raise'' 0 example_world) = Inr 5"
    "warnings (snd (lookup example_merge (SrcFrame 2) (DstStr ''price'') None ''raise'' 0 example_world)) = []"
    "attrs (objs (snd (lookup example_merge (SrcFrame 2) (DstStr ''price'') None ''raise'' 0 example_world)) 5)
        ''enrich_lookup'' = Some (AttrBool True)"
    by simp_all
  from a b c d show ?thesis by blast
qed

subsection \<open>Provenance along a chain of calls\<close>

lemma derive_success:
  assumes "derive opn sl ev spec self w = (Inr r, w')"
  shows "\<exists>d w2. resolve_spec opn sl spec = Inr (YamlMapping d)
      \<and> derive_loop ev (nxt w) d (w\<lparr>objs := (objs w)(nxt w := objs w self), nxt := Suc (nxt w)\<rparr>) = (Inr (), w2)
      \<and> r = nxt w
      \<and> w' = set_attr (nxt w) ''enrich_derivations'' (AttrSpec d)
                (set_attr (nxt w) ''enrich_derived'' (AttrBool True) w2)"
  using assms
  by (auto simp: derive_def copy_eq split: sum.splits yaml_value.splits prod.splits)

lemma derive_attrs:
  assumes "derive opn sl ev spec self w = (Inr r, w')"
  shows "\<exists>d. resolve_spec opn sl spec = Inr (YamlMapping d) \<and> r = nxt w
      \<and> attrs (objs w' r) =
          (attrs (objs w self))(''enrich_derived'' \<mapsto> AttrBool True, ''enrich_derivations'' \<mapsto> AttrSpec d)"
proof -
  from derive_success [OF assms] obtain d w2 where
    rs: "resolve_spec opn sl spec = Inr (YamlMapping d)"
    and run: "derive_loop ev (nxt w) d (w\<lparr>objs := (objs w)(nxt w := objs w self), nxt := Suc (nxt w)\<rparr>) = (Inr (), w2)"
    and r: "r = nxt w"
    and w': "w' = set_attr (nxt w) ''enrich_derivations'' (AttrSpec d)
                (set_attr (nxt w) ''enrich_derived'' (AttrBool True) w2)"
    by blast
  from derive_loop_frame [OF run] have "attrs (objs w2 (nxt w)) = attrs (objs w self)" by simp
  with rs r w' show ?thesis by (simp add: set_attr_def)
qed

lemma cast_attrs:
  assumes "cast astype ds self w = (Inr r, w')"
  shows "r = nxt w \<and> attrs (objs w' r) =
          (attrs (objs w self))(''enrich_cast'' \<mapsto> AttrBool True, ''enrich_dtypes'' \<mapsto> AttrSpec ds)"
proof -
  let ?w1 = "w\<lparr>objs := (objs w)(nxt w := objs w self), nxt := Suc (nxt w)\<rparr>"
  let ?missing = "filter (\<lambda>col. col \<notin> set (column_names (objs w self))) (map fst ds)"
  let ?w2 = "if ?missing \<noteq> [] then warn (UserWarning (ColumnsSkipped ?missing (column_names (objs w self)))) ?w1 else ?w1"
  have o2: "attrs (objs ?w2 (nxt w)) = attrs (objs w self)" by (simp add: warn_def)
  obtain res w3 where run: "cast_loop astype (nxt w) ds ?w2 = (res, w3)" by (cases "cast_loop astype (nxt w) ds ?w2")
  have c: "cast astype ds self w =
      (case (res, w3) of (Inl e, w3) \<Rightarrow> (Inl e, w3)
       | (Inr u, w3) \<Rightarrow> (Inr (nxt w), set_attr (nxt w) ''enrich_dtypes'' (AttrSpec ds)
                   (set_attr (nxt w) ''enrich_cast'' (AttrBool True) w3)))"
    using run by (cases "?missing = []") (simp_all add: cast_def copy_eq Let_def)
  from cast_loop_frame [OF run] o2 have a: "attrs (objs w3 (nxt w)) = attrs (objs w self)" by simp
  from c assms a show ?thesis by (cases res) (auto simp: set_attr_def)
qed

lemma validate_attrs:
  assumes "validate sa self w = (Inr r, w')"
  shows "\<exists>w1. schema_validate (to_schema sa) self w = (Inr r, w1)
      \<and> attrs (objs w' r) =
          (attrs (objs w1 r))(''enrich_validated'' \<mapsto> AttrBool True,
             ''enrich_schema'' \<mapsto> AttrStr (schema_str (to_schema sa)))"
  using assms
  by (auto simp: validate_def Let_def set_attr_def split: prod.splits sum.splits)

text \<open>
  Claim C2. When validate succeeds, derive succeeds on the frame validate returned, and
  cast succeeds on the frame derive returned, the attrs of the final frame hold the
  flags of all three operations at once, with the schema text, the mapping derive
  resolved and the mapping cast was given. derive and cast each start from a copy that
  carries the attrs of the frame they were called on and write only their own two keys:
  every other key of the validated frame has in the final frame the value it had.
\<close>

theorem chained_calls_accumulate_provenance:
  assumes "validate sa self w = (Inr r1, w1)"
    and "derive opn sl ev spec r1 w1 = (Inr r2, w2)"
    and "cast astype ds r2 w2 = (Inr r3, w3)"
  shows "attrs (objs w3 r3) ''enrich_validated'' = Some (AttrBool True)
     \<and> attrs (objs w3 r3) ''enrich_schema'' = Some (AttrStr (schema_str (to_schema sa)))
     \<and> attrs (objs w3 r3) ''enrich_derived'' = Some (AttrBool True)
     \<and> (\<exists>d. resolve_spec opn sl spec = Inr (YamlMapping d)
           \<and> attrs (objs w3 r3) ''enrich_derivations'' = Some (AttrSpec d))
     \<and> attrs (objs w3 r3) ''enrich_cast'' = Some (AttrBool True)
     \<and> attrs (objs w3 r3) ''enrich_dtypes'' = Some (AttrSpec ds)
     \<and> (\<forall>k. k \<notin> {''enrich_derived'', ''enrich_derivations'', ''enrich_cast'', ''enrich_dtypes''} \<longrightarrow>
           attrs (objs w3 r3) k = attrs (objs w1 r1) k)"
proof -
  from validate_attrs [OF assms(1)] obtain w0 where
    "schema_validate (to_schema sa) self w = (Inr r1, w0)" and
    a1: "attrs (objs w1 r1) =
          (attrs (objs w0 r1))(''enrich_validated'' \<mapsto> AttrBool True,
             ''enrich_schema'' \<mapsto> AttrStr (schema_str (to_schema sa)))"
    by blast
  from derive_attrs [OF assms(2)] obtain d where
    rs: "resolve_spec opn sl spec = Inr (YamlMapping d)"
    and a2: "attrs (objs w2 r2) =
          (attrs (objs w1 r1))(''enrich_derived'' \<mapsto> AttrBool True, ''enrich_derivations'' \<mapsto> AttrSpec d)"
    by blast
  from cast_attrs [OF assms(3)] have
    a3: "attrs (objs w3 r3) =
          (attrs (objs w2 r2))(''enrich_cast'' \<mapsto> AttrBool True, ''enrich_dtypes'' \<mapsto> AttrSpec ds)"
    by blast
  have v: "attrs (objs w3 r3) ''enrich_validated'' = Some (AttrBool True)"
    and s: "attrs (objs w3 r3) ''enrich_schema'' = Some (AttrStr (schema_str (to_schema sa)))"
    and dd: "attrs (objs w3 r3) ''enrich_derived'' = Some (AttrBool True)"
    and dv: "attrs (objs w3 r3) ''enrich_derivations'' = Some (AttrSpec d)"
    and c: "attrs (objs w3 r3) ''enrich_cast'' = Some (AttrBool True)"
    and t: "attrs (objs w3 r3) ''enrich_dtypes'' = Some (AttrSpec ds)"
    by (simp_all add: a1 a2 a3)
  have rest: "\<forall>k. k \<notin> {''enrich_derived'', ''enrich_derivations'', ''enrich_cast'', ''enrich_dtypes''} \<longrightarrow>
           attrs (objs w3 r3) k = attrs (objs w1 r1) k"
    by (simp add: a2 a3)
  from v s dd dv c t rs rest show ?thesis by blast
qed

text \<open>The chain of the test suite on the frame at address 0.\<close>

theorem chained_calls_accumulate_provenance_witness:
  "fst chain_validated = Inr 4 \<and> fst chain_derived = Inr 5 \<and> fst chain_cast = Inr 6
   \<and> attrs (objs (snd chain_cast) 6) ''enrich_validated'' = Some (AttrBool True)
   \<and> attrs (objs (snd chain_cast) 6) ''enrich_schema'' = Some (AttrStr ''<Schema DataFrameSchema>'')
   \<and> attrs (objs (snd chain_cast) 6) ''enrich_derived'' = Some (AttrBool True)
   \<and> attrs (objs (snd chain_cast) 6) ''enrich_cast'' = Some (AttrBool True)
   \<and> attrs (objs (snd chain_cast) 6) ''enrich_dtypes'' = Some (AttrSpec [(''c'', ''int32'')])"
proof -
  have w1: "snd chain_validated =
      example_world\<lparr>objs := (objs example_world)(4 := frame_ab\<lparr>attrs :=
          [''enrich_validated'' \<mapsto> AttrBool True, ''enrich_schema'' \<mapsto> AttrStr ''<Schema DataFrameSchema>'']\<rparr>),
        nxt := 5\<rparr>"
    and f1: "fst chain_validated = Inr 4"
    by (simp_all add: chain_validated_def validate_def example_schema_def copy_eq set_attr_def
        example_world_def frame_ab_def column_names_def)
  have f2: "fst chain_derived = Inr 5"
    by (simp add: chain_derived_def w1 derive_def copy_eq example_eval_def eval_columns_def
        frame_ab_def setitem_def example_world_def)
  have n2: "nxt (snd chain_derived) = 6"
    by (simp add: chain_derived_def w1 derive_def copy_eq example_eval_def eval_columns_def
        frame_ab_def setitem_def set_attr_def example_world_def num_series_def cell_op_def)
  have h1: "validate (SchemaInstance example_schema) 0 example_world = (Inr 4, snd chain_validated)"
    using f1 by (simp add: chain_validated_def prod_eq_iff)
  have h2: "derive example_open example_safe_load example_eval (SpecDict [(''c'', ''a + b'')]) 4
      (snd chain_validated) = (Inr 5, snd chain_derived)"
    using f2 by (simp add: chain_derived_def prod_eq_iff)
  have o2: "objs (snd chain_derived) 5 = \<lparr>index = [0, 1, 2],
        columns = [(''a'', num_series [1, 2, 3]), (''b'', num_series [4, 5, 6]),
                   (''c'', \<lparr>dtype = ''int64'', cells = [Some 5, Some 7, Some 9]\<rparr>)],
        attrs = [''enrich_validated'' \<mapsto> AttrBool True,
                 ''enrich_schema'' \<mapsto> AttrStr ''<Schema DataFrameSchema>'',
                 ''enrich_derived'' \<mapsto> AttrBool True,
                 ''enrich_derivations'' \<mapsto> AttrSpec [(''c'', ''a + b'')]]\<rparr>"
    by (simp add: chain_derived_def w1 derive_def copy_eq example_eval_def eval_columns_def
        frame_ab_def setitem_def set_attr_def example_world_def num_series_def cell_op_def)
  have f3: "fst chain_cast = Inr 6"
    by (simp add: chain_cast_def cast_def copy_eq n2 o2 column_names_def getitem_def
        example_astype_def split: prod.splits)
  then have h3: "cast example_astype [(''c'', ''int32'')] 5 (snd chain_derived) = (Inr 6, snd chain_cast)"
    by (simp add: chain_cast_def prod_eq_iff)
  from chained_calls_accumulate_provenance [OF h1 h2 h3] f1 f2 f3
  show ?thesis by (simp add: example_schema_def)
qed

subsection \<open>derive: entries are applied in the order of the mapping\<close>

lemma derive_loop_append:
  "derive_loop ev df (pre @ rest) w =
     (case derive_loop ev df pre w of
        (Inl x, w') \<Rightarrow> (Inl x, w')
      | (Inr u, w') \<Rightarrow> derive_loop ev df rest w')"
proof (induction pre arbitrary: w)
  case Nil
  then show ?case by simp
next
  case (Cons p pre)
  obtain c e where p: "p = (c, e)" by (cases p)
  show ?case using Cons.IH p by (simp split: sum.splits)
qed

lemma column_names_assign:
  "set (map fst (assign c s ps)) = insert c (set (map fst ps))"
  by (auto simp: map_fst_assign)

lemma derive_two_entries:
  assumes "ev (objs w self) e1 = Inr s1"
    and "ev ((objs w self)\<lparr>columns := assign c1 s1 (columns (objs w self))\<rparr>) e2 = Inr s2"
  shows "derive opn sl ev (SpecDict [(c1, e1), (c2, e2)]) self w =
     (Inr (nxt w),
      w\<lparr>objs := (objs w)(nxt w := (objs w self)\<lparr>
            columns := assign c2 s2 (assign c1 s1 (columns (objs w self))),
            attrs := (attrs (objs w self))(''enrich_derived'' \<mapsto> AttrBool True,
               ''enrich_derivations'' \<mapsto> AttrSpec [(c1, e1), (c2, e2)])\<rparr>),
         nxt := Suc (nxt w)\<rparr>)"
  using assms by (simp add: derive_def copy_eq setitem_def set_attr_def)

lemma derive_one_entry:
  assumes "ev (objs w self) e = Inr s"
  shows "derive opn sl ev (SpecDict [(c, e)]) self w =
     (Inr (nxt w),
      w\<lparr>objs := (objs w)(nxt w := (objs w self)\<lparr>
            columns := assign c s (columns (objs w self)),
            attrs := (attrs (objs w self))(''enrich_derived'' \<mapsto> AttrBool True,
               ''enrich_derivations'' \<mapsto> AttrSpec [(c, e)])\<rparr>),
         nxt := Suc (nxt w)\<rparr>)"
  using assms by (simp add: derive_def copy_eq setitem_def set_attr_def)

text \<open>
  Claim C3. The loop of derive takes the entries in the order of the mapping: the
  expression of an entry is evaluated on the frame as the entries before it have left
  it, and an entry is reached only when those before it succeeded. So, with an evaluator
  that resolves the names of an expression among the columns the frame has at that
  moment, \<^verbatim>\<open>derive({"total": "price*quantity", "discount": "total*0.1"})\<close> succeeds on
  a frame with the columns price and quantity: the second expression is evaluated on the
  frame to which total has been assigned. And with an evaluator for which
  \<^verbatim>\<open>a + b\<close> is the cell by cell sum of the columns a and b,
  \<^verbatim>\<open>derive({"c": "a + b"})\<close> on a = [1, 2, 3], b = [4, 5, 6] gives c = [5, 7, 9], with
  \<^verbatim>\<open>enrich_derived\<close> set and the mapping recorded under \<^verbatim>\<open>enrich_derivations\<close>.
\<close>

theorem derive_applies_entries_in_order:
  fixes ev :: "'v::numeral frame \<Rightarrow> string \<Rightarrow> string + 'v series"
  shows
  "derive_loop ev df (pre @ (c, e) # post) w =
     (case derive_loop ev df pre w of
        (Inl x, w') \<Rightarrow> (Inl x, w')
      | (Inr u, w') \<Rightarrow>
          (case ev (objs w' df) e of
             Inl m \<Rightarrow> (Inl (ValueError (DeriveFailed c e m)), w')
           | Inr s \<Rightarrow> derive_loop ev df post (setitem df c s w')))
   \<and> ((\<forall>t. ''price'' \<in> set (column_names t) \<and> ''quantity'' \<in> set (column_names t) \<longrightarrow>
            (\<exists>s. ev t ''price*quantity'' = Inr s))
       \<and> (\<forall>t. ''total'' \<in> set (column_names t) \<longrightarrow> (\<exists>s. ev t ''total*0.1'' = Inr s))
       \<and> ''price'' \<in> set (column_names (objs w self))
       \<and> ''quantity'' \<in> set (column_names (objs w self))
      \<longrightarrow> (\<exists>w' s1 s2.
            derive opn sl ev (SpecDict [(''total'', ''price*quantity''), (''discount'', ''total*0.1'')]) self w =
              (Inr (nxt w), w')
          \<and> ev (objs w self) ''price*quantity'' = Inr s1
          \<and> ev ((objs w self)\<lparr>columns := assign ''total'' s1 (columns (objs w self))\<rparr>) ''total*0.1'' = Inr s2
          \<and> columns (objs w' (nxt w)) = assign ''discount'' s2 (assign ''total'' s1 (columns (objs w self)))
          \<and> attrs (objs w' (nxt w)) ''enrich_derived'' = Some (AttrBool True)))
   \<and> ((\<forall>t sa sb. map_of (columns t) ''a'' = Some sa \<and> map_of (columns t) ''b'' = Some sb \<longrightarrow>
            (\<exists>s. ev t ''a + b'' = Inr s \<and> cells s = map2 (cell_op (+)) (cells sa) (cells sb)))
       \<and> (\<exists>sa sb. map_of (columns (objs w self)) ''a'' = Some sa \<and> cells sa = [Some 1, Some 2, Some 3]
             \<and> map_of (columns (objs w self)) ''b'' = Some sb \<and> cells sb = [Some 4, Some 5, Some 6])
      \<longrightarrow> (\<exists>w' s.
            derive opn sl ev (SpecDict [(''c'', ''a + b'')]) self w = (Inr (nxt w), w')
          \<and> map_of (columns (objs w' (nxt w))) ''c'' = Some s
          \<and> cells s = [Some 5, Some 7, Some 9]
          \<and> attrs (objs w' (nxt w)) =
              (attrs (objs w self))(''enrich_derived'' \<mapsto> AttrBool True,
                 ''enrich_derivations'' \<mapsto> AttrSpec [(''c'', ''a + b'')])))"
    (is "?order \<and> (?pre2 \<longrightarrow> ?two) \<and> (?pre3 \<longrightarrow> ?one)")
proof (intro conjI impI)
  show ?order
    by (simp add: derive_loop_append [of ev df pre "(c, e) # post"] split: prod.splits sum.splits)
next
  assume h: ?pre2
  let ?t = "objs w self"
  from h obtain s1 where s1: "ev ?t ''price*quantity'' = Inr s1" by blast
  let ?t1 = "?t\<lparr>columns := assign ''total'' s1 (columns ?t)\<rparr>"
  have "''total'' \<in> set (column_names ?t1)"
    by (simp add: column_names_def column_names_assign del: set_map)
  with h obtain s2 where s2: "ev ?t1 ''total*0.1'' = Inr s2" by blast
  from derive_two_entries [where ev = ev and w = w and self = self and opn = opn and sl = sl
      and ?c2.0 = "''discount''", OF s1 s2] s1 s2
  show ?two by simp
next
  assume h: ?pre3
  let ?t = "objs w self"
  from h obtain sa sb where
    a: "map_of (columns ?t) ''a'' = Some sa" "cells sa = [Some 1, Some 2, Some 3]"
    and b: "map_of (columns ?t) ''b'' = Some sb" "cells sb = [Some 4, Some 5, Some 6]"
    by blast
  with h obtain s where s: "ev ?t ''a + b'' = Inr s"
    and cs: "cells s = map2 (cell_op (+)) (cells sa) (cells sb)"
    by blast
  from cs a(2) b(2) have "cells s = [Some 5, Some 7, Some 9]"
    by (simp add: cell_op_def)
  with derive_one_entry [where ev = ev and w = w and self = self and opn = opn and sl = sl
      and c = "''c''", OF s]
  show ?one by (simp add: map_of_assign)
qed

text \<open>
  With the evaluator of the examples: the two entries succeed in this order on the sales
  frame, where the second expression alone would fail for want of the column total.
\<close>

theorem derive_applies_entries_in_order_witness:
  "(\<exists>w'. derive example_open example_safe_load example_eval
          (SpecDict [(''total'', ''price*quantity''), (''discount'', ''total*0.1'')]) 1 example_world = (Inr 4, w')
        \<and> column_names (objs w' 4) = [''price'', ''quantity'', ''total'', ''discount''])
   \<and> example_eval (objs example_world 1) ''total*0.1'' = Inl ''total''
   \<and> (\<exists>w' s. derive example_open example_safe_load example_eval (SpecDict [(''c'', ''a + b'')]) 0 example_world =
          (Inr 4, w')
        \<and> map_of (columns (objs w' 4)) ''c'' = Some s \<and> cells s = [Some 5, Some 7, Some 9])"
proof -
  have e1: "\<forall>t. ''price'' \<in> set (column_names t) \<and> ''quantity'' \<in> set (column_names t) \<longrightarrow>
      (\<exists>s. example_eval t ''price*quantity'' = Inr s)"
  proof (intro allI impI)
    fix t :: "rat frame"
    assume "''price'' \<in> set (column_names t) \<and> ''quantity'' \<in> set (column_names t)"
    then obtain sp sq where "map_of (columns t) ''price'' = Some sp" "map_of (columns t) ''quantity'' = Some sq"
      using getitem_present by blast
    then show "\<exists>s. example_eval t ''price*quantity'' = Inr s"
      by (simp add: example_eval_def eval_columns_def)
  qed
  have e2: "\<forall>t. ''total'' \<in> set (column_names t) \<longrightarrow> (\<exists>s. example_eval t ''total*0.1'' = Inr s)"
  proof (intro allI impI)
    fix t :: "rat frame"
    assume "''total'' \<in> set (column_names t)"
    then obtain st where "map_of (columns t) ''total'' = Some st"
      using getitem_present by blast
    then show "\<exists>s. example_eval t ''total*0.1'' = Inr s"
      by (simp add: example_eval_def eval_scaled_def)
  qed
  have e3: "\<forall>t sa sb. map_of (columns t) ''a'' = Some sa \<and> map_of (columns t) ''b'' = Some sb \<longrightarrow>
      (\<exists>s. example_eval t ''a + b'' = Inr s \<and> cells s = map2 (cell_op (+)) (cells sa) (cells sb))"
    by (simp add: example_eval_def eval_columns_def)
  have sales: "''price'' \<in> set (column_names (objs example_world 1))"
    "''quantity'' \<in> set (column_names (objs example_world 1))"
    by (simp_all add: example_world_def frame_sales_def column_names_def)
  have ab: "\<exists>sa sb. map_of (columns (objs example_world 0)) ''a'' = Some sa \<and> cells sa = [Some 1, Some 2, Some 3]
      \<and> map_of (columns (objs example_world 0)) ''b'' = Some sb \<and> cells sb = [Some 4, Some 5, Some 6]"
    by (simp add: example_world_def frame_ab_def num_series_def)
  have n: "nxt example_world = 4" by (simp add: example_world_def)
  note t = derive_applies_entries_in_order [where ev = example_eval and w = example_world
      and opn = example_open and sl = example_safe_load]
  from t [where self = 1, THEN conjunct2, THEN conjunct1] e1 e2 sales
  obtain w' s1 s2 where
    "derive example_open example_safe_load example_eval
        (SpecDict [(''total'', ''price*quantity''), (''discount'', ''total*0.1'')]) 1 example_world = (Inr 4, w')"
    "columns (objs w' 4) = assign ''discount'' s2 (assign ''total'' s1 (columns (objs example_world 1)))"
    unfolding n by blast
  then have a: "\<exists>w'. derive example_open example_safe_load example_eval
          (SpecDict [(''total'', ''price*quantity''), (''discount'', ''total*0.1'')]) 1 example_world = (Inr 4, w')
        \<and> column_names (objs w' 4) = [''price'', ''quantity'', ''total'', ''discount'']"
    by (simp add: column_names_def example_world_def frame_sales_def)
  have b: "example_eval (objs example_world 1) ''total*0.1'' = Inl ''total''"
    by (simp add: example_eval_def eval_scaled_def example_world_def frame_sales_def)
  from t [where self = 0, THEN conjunct2, THEN conjunct2] e3 ab
  have c: "\<exists>w' s. derive example_open example_safe_load example_eval (SpecDict [(''c'', ''a + b'')]) 0 example_world =
          (Inr 4, w')
        \<and> map_of (columns (objs w' 4)) ''c'' = Some s \<and> cells s = [Some 5, Some 7, Some 9]"
    unfolding n by blast
  from a b c show ?thesis by blast
qed

subsection \<open>Which objects an operation touches, and which it returns\<close>

lemma derive_live_unchanged:
  assumes "r < nxt w"
  shows "objs (snd (derive opn sl ev spec self w)) r = objs w r"
proof -
  let ?w1 = "w\<lparr>objs := (objs w)(nxt w := objs w self), nxt := Suc (nxt w)\<rparr>"
  from assms have ne: "r \<noteq> nxt w" by simp
  show ?thesis
  proof (cases "resolve_spec opn sl spec")
    case (Inl e)
    with ne show ?thesis by (simp add: derive_def copy_eq)
  next
    case (Inr v)
    show ?thesis
    proof (cases v)
      case YamlOther
      with Inr ne show ?thesis by (simp add: derive_def copy_eq)
    next
      case (YamlMapping d)
      obtain res w2 where run: "derive_loop ev (nxt w) d ?w1 = (res, w2)"
        by (cases "derive_loop ev (nxt w) d ?w1")
      from derive_loop_frame [OF run] ne have "objs w2 r = objs w r" by simp
      with Inr YamlMapping run ne show ?thesis
        by (cases res) (simp_all add: derive_def copy_eq set_attr_def)
    qed
  qed
qed

lemma derive_returns_fresh:
  "fst (derive opn sl ev spec self w) = Inr r \<Longrightarrow> r = nxt w"
  by (auto simp: derive_def copy_eq split: sum.splits yaml_value.splits prod.splits)

lemma cast_live_unchanged:
  assumes "r < nxt w"
  shows "objs (snd (cast astype ds self w)) r = objs w r"
proof -
  let ?w1 = "w\<lparr>objs := (objs w)(nxt w := objs w self), nxt := Suc (nxt w)\<rparr>"
  let ?missing = "filter (\<lambda>col. col \<notin> set (column_names (objs w self))) (map fst ds)"
  let ?w2 = "if ?missing \<noteq> [] then warn (UserWarning (ColumnsSkipped ?missing (column_names (objs w self)))) ?w1 else ?w1"
  from assms have ne: "r \<noteq> nxt w" by simp
  then have o2: "objs ?w2 r = objs w r" by (simp add: warn_def)
  obtain res w3 where run: "cast_loop astype (nxt w) ds ?w2 = (res, w3)"
    by (cases "cast_loop astype (nxt w) ds ?w2")
  have c: "cast astype ds self w =
      (case (res, w3) of (Inl e, w3) \<Rightarrow> (Inl e, w3)
       | (Inr u, w3) \<Rightarrow> (Inr (nxt w), set_attr (nxt w) ''enrich_dtypes'' (AttrSpec ds)
                   (set_attr (nxt w) ''enrich_cast'' (AttrBool True) w3)))"
    using run by (cases "?missing = []") (simp_all add: cast_def copy_eq Let_def)
  from cast_loop_frame [OF run] ne o2 have "objs w3 r = objs w r" by simp
  with c ne show ?thesis by (cases res) (simp_all add: set_attr_def)
qed

lemma cast_returns_fresh:
  "fst (cast astype ds self w) = Inr r \<Longrightarrow> r = nxt w"
  by (auto simp: cast_def copy_eq Let_def split: sum.splits prod.splits if_splits)

lemma lookup_live_unchanged:
  assumes "r < nxt w"
  shows "objs (snd (lookup merge src dst None on_missing self w)) r = objs w r"
  using assms
  by (auto simp: lookup_def copy_eq alloc_def Let_def set_attr_def warn_def
      split: src_arg.splits sum.splits prod.splits)

lemma lookup_returns_fresh:
  "fst (lookup merge src dst None on_missing self w) = Inr r \<Longrightarrow> r = Suc (nxt w)"
  by (auto simp: lookup_def copy_eq alloc_def Let_def
      split: src_arg.splits sum.splits prod.splits if_splits)


lemma validate_stamps_returned:
  assumes "schema_validate (to_schema sa) self w = (Inr v, w1)"
  shows "validate sa self w =
     (Inr v, w1\<lparr>objs := (objs w1)(v := (objs w1 v)\<lparr>attrs := (attrs (objs w1 v))
        (''enrich_validated'' \<mapsto> AttrBool True,
         ''enrich_schema'' \<mapsto> AttrStr (schema_str (to_schema sa)))\<rparr>)\<rparr>)"
  using assms by (simp add: validate_def Let_def set_attr_def)

text \<open>
  Claim C1, as the code has it. derive, cast and lookup without a resolver work on a copy:
  whatever their outcome, every DataFrame that was alive before the call, the caller's
  among them, is afterwards what it was, and on success the object returned is one that
  did not exist before the call (the copy for derive and cast, the joined frame for
  lookup). validate makes no copy of its own: it returns the object the schema
  collaborator returned, with \<^verbatim>\<open>enrich_validated\<close> and \<^verbatim>\<open>enrich_schema\<close> added to its
  attrs and its index and columns as the collaborator returned them, and it changes no
  other object; so the caller's frame is as the collaborator left it whenever the
  collaborator returns another object than the caller's. profile changes no DataFrame;
  what it returns is a report or a mapping, not a DataFrame.
\<close>

theorem callers_frame_is_left_alone:
  "(r < nxt w \<longrightarrow>
        objs (snd (derive opn sl ev spec self w)) r = objs w r
      \<and> objs (snd (cast astype ds self w)) r = objs w r
      \<and> objs (snd (lookup merge src dst None on_missing self w)) r = objs w r)
   \<and> (fst (derive opn sl ev spec self w) = Inr r' \<longrightarrow> r' = nxt w)
   \<and> (fst (cast astype ds self w) = Inr r' \<longrightarrow> r' = nxt w)
   \<and> (fst (lookup merge src dst None on_missing self w) = Inr r' \<longrightarrow> r' = Suc (nxt w))
   \<and> (schema_validate (to_schema sa) self w = (Inr v, w1) \<longrightarrow>
        fst (validate sa self w) = Inr v
      \<and> objs (snd (validate sa self w)) v =
          (objs w1 v)\<lparr>attrs := (attrs (objs w1 v))
             (''enrich_validated'' \<mapsto> AttrBool True,
              ''enrich_schema'' \<mapsto> AttrStr (schema_str (to_schema sa)))\<rparr>
      \<and> (r \<noteq> v \<longrightarrow> objs (snd (validate sa self w)) r = objs w1 r))
   \<and> objs (snd (profile lib describe engine lazy kwargs self w)) = objs w"
proof (intro conjI impI)
  assume "r < nxt w"
  then show "objs (snd (derive opn sl ev spec self w)) r = objs w r"
    and "objs (snd (cast astype ds self w)) r = objs w r"
    and "objs (snd (lookup merge src dst None on_missing self w)) r = objs w r"
    by (rule derive_live_unchanged cast_live_unchanged lookup_live_unchanged)+
next
  assume "fst (derive opn sl ev spec self w) = Inr r'"
  then show "r' = nxt w" by (rule derive_returns_fresh)
next
  assume "fst (cast astype ds self w) = Inr r'"
  then show "r' = nxt w" by (rule cast_returns_fresh)
next
  assume "fst (lookup merge src dst None on_missing self w) = Inr r'"
  then show "r' = Suc (nxt w)" by (rule lookup_returns_fresh)
next
  assume a: "schema_validate (to_schema sa) self w = (Inr v, w1)"
  show "fst (validate sa self w) = Inr v"
    by (simp add: validate_stamps_returned [OF a])
  show "objs (snd (validate sa self w)) v =
          (objs w1 v)\<lparr>attrs := (attrs (objs w1 v))
             (''enrich_validated'' \<mapsto> AttrBool True,
              ''enrich_schema'' \<mapsto> AttrStr (schema_str (to_schema sa)))\<rparr>"
    by (simp add: validate_stamps_returned [OF a])
  assume "r \<noteq> v"
  then show "objs (snd (validate sa self w)) r = objs w1 r"
    by (simp add: validate_stamps_returned [OF a])
next
  show "objs (snd (profile lib describe engine lazy kwargs self w)) = objs w"
    by (simp add: profile_def warn_def split: option.splits lib_outcome.splits)
qed

text \<open>
  Claim C1, as stated, fails in the resolver branch of lookup, which returns whatever the
  resolver returns: here the source is the caller's own frame (address 0, alive before
  the call) and the resolver hands the source back, so that the object returned is the
  caller's instance and not a new one.
\<close>

theorem resolver_result_is_callers_frame:
  "0 < nxt example_world
   \<and> fst (lookup example_merge (SrcFrame 0) (DstStr ''price'') (Some resolver_returns_source) ''warn''
          0 example_world) = Inr 0"
  by (simp add: lookup_def copy_eq resolver_returns_source_def example_world_def)

text \<open>
  On the frame at address 0: derive, cast and lookup return the new objects 4, 4 and 5 and
  leave object 0 as it was; validate with a schema that checks a copy returns the copy,
  stamped, and object 0 stays without the flag.
\<close>

theorem callers_frame_is_left_alone_witness:
  "objs (snd (derive example_open example_safe_load example_eval (SpecDict [(''c'', ''a + b'')]) 0 example_world)) 0
      = objs example_world 0
   \<and> fst (derive example_open example_safe_load example_eval (SpecDict [(''c'', ''a + b'')]) 0 example_world) = Inr 4
   \<and> objs (snd (cast example_astype [(''a'', ''int64'')] 0 example_world)) 0 = objs example_world 0
   \<and> fst (cast example_astype [(''a'', ''int64'')] 0 example_world) = Inr 4
   \<and> objs (snd (lookup example_merge (SrcFrame 2) (DstStr ''price'') None ''warn'' 0 example_world)) 0
      = objs example_world 0
   \<and> fst (lookup example_merge (SrcFrame 2) (DstStr ''price'') None ''warn'' 0 example_world) = Inr 5
   \<and> fst (validate (SchemaInstance example_schema) 0 example_world) = Inr 4
   \<and> objs (snd (validate (SchemaInstance example_schema) 0 example_world)) 0 = objs example_world 0
   \<and> attrs (objs (snd (validate (SchemaInstance example_schema) 0 example_world)) 4) ''enrich_validated''
      = Some (AttrBool True)
   \<and> attrs (objs example_world 0) ''enrich_validated'' = None
   \<and> 4 = nxt example_world \<and> 5 = Suc (nxt example_world)"
proof -
  have live: "0 < nxt example_world" and n: "nxt example_world = 4"
    by (simp_all add: example_world_def)
  have fd: "fst (derive example_open example_safe_load example_eval (SpecDict [(''c'', ''a + b'')]) 0 example_world) = Inr 4"
    by (simp add: derive_def copy_eq example_eval_def eval_columns_def example_world_def frame_ab_def)
  have fc: "fst (cast example_astype [(''a'', ''int64'')] 0 example_world) = Inr 4"
    by (simp add: cast_def copy_eq column_names_def getitem_def example_astype_def
        example_world_def frame_ab_def split: prod.splits)
  have fl: "fst (lookup example_merge (SrcFrame 2) (DstStr ''price'') None ''warn'' 0 example_world) = Inr 5"
    by (simp add: lookup_def copy_eq alloc_def Let_def column_names_def getitem_list_def
        example_merge_def example_world_def frame_ab_def frame_prices_def)
  have sv: "schema_validate (to_schema (SchemaInstance example_schema)) 0 example_world =
      (Inr 4, snd (copy 0 example_world))"
    by (simp add: example_schema_def copy_eq example_world_def frame_ab_def column_names_def)
  have same: "objs (snd (copy 0 example_world)) 0 = objs example_world 0"
    "attrs (objs (snd (copy 0 example_world)) 4) = Map.empty"
    by (simp_all add: copy_eq example_world_def frame_ab_def)
  note t = callers_frame_is_left_alone [where r = 0 and w = example_world and self = 0
      and opn = example_open and sl = example_safe_load and ev = example_eval
      and spec = "SpecDict [(''c'', ''a + b'')]" and astype = example_astype
      and ds = "[(''a'', ''int64'')]" and merge = example_merge and src = "SrcFrame 2"
      and dst = "DstStr ''price''" and on_missing = "''warn''"
      and sa = "SchemaInstance example_schema" and v = 4 and ?w1.0 = "snd (copy 0 example_world)"]
  from t [THEN conjunct1] live
  have a: "objs (snd (derive example_open example_safe_load example_eval (SpecDict [(''c'', ''a + b'')]) 0 example_world)) 0
      = objs example_world 0"
    "objs (snd (cast example_astype [(''a'', ''int64'')] 0 example_world)) 0 = objs example_world 0"
    "objs (snd (lookup example_merge (SrcFrame 2) (DstStr ''price'') None ''warn'' 0 example_world)) 0
      = objs example_world 0"
    by blast+
  from t [THEN conjunct2, THEN conjunct2, THEN conjunct2, THEN conjunct2, THEN conjunct1] sv same
  have v: "fst (validate (SchemaInstance example_schema) 0 example_world) = Inr 4"
    "objs (snd (validate (SchemaInstance example_schema) 0 example_world)) 0 = objs example_world 0"
    "attrs (objs (snd (validate (SchemaInstance example_schema) 0 example_world)) 4) ''enrich_validated''
      = Some (AttrBool True)"
    by simp_all
  have u: "attrs (objs example_world 0) ''enrich_validated'' = None"
    by (simp add: example_world_def frame_ab_def)
  from t [where r' = 4, THEN conjunct2, THEN conjunct1] fd
  have "4 = nxt example_world" by blast
  moreover from t [where r' = 4, THEN conjunct2, THEN conjunct2, THEN conjunct1] fc
  have "4 = nxt example_world" by blast
  moreover from t [where r' = 5, THEN conjunct2, THEN conjunct2, THEN conjunct2, THEN conjunct1] fl
  have "5 = Suc (nxt example_world)" by blast
  ultimately show ?thesis using a fd fc fl v u by blast
qed

end
